theory Spec2Isabelle
  imports Main "HOL-Library.Word" "HOL-Library.Sublist"
begin

section \<open>The exporter's entry point (main.go) as a state-passing program\<close>

text \<open>
  The program is one Go file: package-level variables, the \<open>Config\<close> struct with its
  \<open>Token\<close> method, and \<open>main\<close>. \<open>main\<close> is straight-line code that calls into
  libraries (go-arg, go-kit log, oauth2, godo, the Prometheus client, net/http) and into
  the repository's own \<open>collector\<close> package. Each call that can stop the process is a
  step that either continues with an updated state or ends the run with an outcome.
  What the libraries decide (whether a registration is accepted, what the listener
  does, which patterns imported packages have put on the default mux) is a field of
  the \<open>World\<close> the program runs in, so that every statement about \<open>main\<close> holds for
  every behaviour of its collaborators.
\<close>

subsection \<open>Configuration\<close>

text \<open>Go's \<open>int\<close> on the 64-bit targets, and \<open>time.Duration\<close> (an \<open>int64\<close>
  count of nanoseconds), are 64-bit words read as signed numbers with \<open>sint\<close>.\<close>

type_synonym int64 = "64 word"
type_synonym Duration = "64 word"

text \<open>A \<open>time.Time\<close>, as seconds on the wall clock.\<close>

type_synonym Time = int

record Config =
  Debug :: bool
  DigitalOceanToken :: string
  HTTPTimeout :: int64
  WebAddr :: string
  WebPath :: string

text \<open>\<open>oauth2.Token\<close>: the exported fields; \<open>Expiry = 0\<close> is the zero time.\<close>

record oauth2_Token =
  AccessToken :: string
  TokenType :: string
  RefreshToken :: string
  Expiry :: Time

text \<open>
  \<open>func (c Config) Token() (*oauth2.Token, error)\<close>. The pointer is \<open>Some\<close> of the
  struct it points to (\<open>None\<close> would be nil); the error is \<open>None\<close> for nil.
\<close>

definition Token :: "Config \<Rightarrow> oauth2_Token option \<times> string option" where
  "Token c =
     (Some \<lparr>AccessToken = DigitalOceanToken c, TokenType = [], RefreshToken = [], Expiry = 0\<rparr>,
      None)"

text \<open>
  What \<open>arg.MustParse\<close> finds for each field, already converted to the field's type:
  \<open>None\<close> when the variable named in the struct tag is unset. \<open>godotenv.Load\<close> only
  adds variables of a local file to the environment before that, so its effect is
  part of these values.
\<close>

record Environment =
  env_DEBUG :: "bool option"
  env_DIGITALOCEAN_TOKEN :: "string option"
  env_HTTP_TIMEOUT :: "int64 option"
  env_WEB_ADDR :: "string option"
  env_WEB_PATH :: "string option"

text \<open>\<open>arg.MustParse(&c)\<close>, when it returns: a field is overwritten only when a value
  was supplied for it. The call can also end the process itself (a help request, a
  value that does not parse); that is \<open>parse_outcome\<close> and \<open>program\<close> below.\<close>

definition MustParse :: "Environment \<Rightarrow> Config \<Rightarrow> Config" where
  "MustParse e c =
     \<lparr>Debug = (case env_DEBUG e of None \<Rightarrow> Debug c | Some b \<Rightarrow> b),
      DigitalOceanToken =
        (case env_DIGITALOCEAN_TOKEN e of None \<Rightarrow> DigitalOceanToken c | Some t \<Rightarrow> t),
      HTTPTimeout = (case env_HTTP_TIMEOUT e of None \<Rightarrow> HTTPTimeout c | Some n \<Rightarrow> n),
      WebAddr = (case env_WEB_ADDR e of None \<Rightarrow> WebAddr c | Some a \<Rightarrow> a),
      WebPath = (case env_WEB_PATH e of None \<Rightarrow> WebPath c | Some p \<Rightarrow> p)\<rparr>"

subsection \<open>Package-level variables\<close>

record Globals =
  Version :: string
  Revision :: string
  BuildDate :: string
  GoVersion :: string
  StartTime :: Time

text \<open>
  Package initialisation, which runs once before \<open>main\<close>: \<open>Version\<close>, \<open>Revision\<close> and
  \<open>BuildDate\<close> have no initialiser (they are set by the linker or stay empty),
  \<open>GoVersion = runtime.Version()\<close> and \<open>StartTime = time.Now()\<close>.
\<close>

record Build =
  ld_Version :: string
  ld_Revision :: string
  ld_BuildDate :: string
  runtime_Version :: string

definition init_globals :: "Build \<Rightarrow> Time \<Rightarrow> Globals" where
  "init_globals b now =
     \<lparr>Version = ld_Version b, Revision = ld_Revision b, BuildDate = ld_BuildDate b,
      GoVersion = runtime_Version b, StartTime = now\<rparr>"

subsection \<open>Logger, API client, collectors\<close>

datatype filterOption = AllowInfo | AllowDebug

text \<open>The logfmt logger on stderr behind \<open>level.NewFilter\<close>.\<close>

datatype logger = NewFilter filterOption

datatype log_level = LevelDebug | LevelInfo | LevelError

fun allowed :: "filterOption \<Rightarrow> log_level \<Rightarrow> bool" where
  "allowed AllowDebug _ = True"
| "allowed AllowInfo lvl = (lvl \<noteq> LevelDebug)"

text \<open>\<open>godo.NewClient(oauth2.NewClient(context.TODO(), c))\<close>: the API client, whose
  token source is the configuration \<open>c\<close> itself.\<close>

datatype client = NewClient Config

text \<open>
  The constructors of package \<open>collector\<close>, with the arguments \<open>main\<close> gives them.
  The package is not part of the file; a collector is the record of its construction,
  and a constructor always returns one (it has a single result and no error).
\<close>

datatype collector =
    NewAccountCollector logger client Duration
  | NewDomainCollector logger client Duration
  | NewDropletCollector logger client Duration
  | NewExporterCollector logger string string string string Time
  | NewFloatingIPCollector logger client Duration
  | NewImageCollector logger client Duration
  | NewKeyCollector logger client Duration
  | NewLoadBalancerCollector logger client Duration
  | NewSnapshotCollector logger client Duration
  | NewVolumeCollector logger client Duration

text \<open>The resource types of the specification.\<close>

datatype resource_type =
    droplet | volume | domain | image | key | load_balancer | snapshot | floating_IP
  | account | exporter_self_stats

fun resource_of :: "collector \<Rightarrow> resource_type" where
  "resource_of (NewAccountCollector _ _ _) = account"
| "resource_of (NewDomainCollector _ _ _) = domain"
| "resource_of (NewDropletCollector _ _ _) = droplet"
| "resource_of (NewExporterCollector _ _ _ _ _ _) = exporter_self_stats"
| "resource_of (NewFloatingIPCollector _ _ _) = floating_IP"
| "resource_of (NewImageCollector _ _ _) = image"
| "resource_of (NewKeyCollector _ _ _) = key"
| "resource_of (NewLoadBalancerCollector _ _ _) = load_balancer"
| "resource_of (NewSnapshotCollector _ _ _) = snapshot"
| "resource_of (NewVolumeCollector _ _ _) = volume"

text \<open>The API client handle and the timeout a collector was constructed with.\<close>

fun client_of :: "collector \<Rightarrow> client option" where
  "client_of (NewAccountCollector _ cl _) = Some cl"
| "client_of (NewDomainCollector _ cl _) = Some cl"
| "client_of (NewDropletCollector _ cl _) = Some cl"
| "client_of (NewExporterCollector _ _ _ _ _ _) = None"
| "client_of (NewFloatingIPCollector _ cl _) = Some cl"
| "client_of (NewImageCollector _ cl _) = Some cl"
| "client_of (NewKeyCollector _ cl _) = Some cl"
| "client_of (NewLoadBalancerCollector _ cl _) = Some cl"
| "client_of (NewSnapshotCollector _ cl _) = Some cl"
| "client_of (NewVolumeCollector _ cl _) = Some cl"

fun timeout_of :: "collector \<Rightarrow> Duration option" where
  "timeout_of (NewAccountCollector _ _ t) = Some t"
| "timeout_of (NewDomainCollector _ _ t) = Some t"
| "timeout_of (NewDropletCollector _ _ t) = Some t"
| "timeout_of (NewExporterCollector _ _ _ _ _ _) = None"
| "timeout_of (NewFloatingIPCollector _ _ t) = Some t"
| "timeout_of (NewImageCollector _ _ t) = Some t"
| "timeout_of (NewKeyCollector _ _ t) = Some t"
| "timeout_of (NewLoadBalancerCollector _ _ t) = Some t"
| "timeout_of (NewSnapshotCollector _ _ t) = Some t"
| "timeout_of (NewVolumeCollector _ _ t) = Some t"

subsection \<open>HTTP handlers and the default mux\<close>

text \<open>\<open>promhttp.Handler()\<close>, the function literal of \<open>main\<close>, which closes over \<open>c\<close>,
  and a handler that an imported package has registered under its own name.\<close>

datatype handler = promhttp_Handler | HandlerFunc Config | LibraryHandler string

subsection \<open>Events, outcomes and the process state\<close>

text \<open>The calls of \<open>main\<close> that can be observed from outside: log lines, registrations,
  handler registrations and the start of the listener, in the order they are made.\<close>

datatype event =
    Log log_level "(string \<times> string) list"
  | CallMustRegister collector
  | CallHandle string handler
  | CallListenAndServe string

datatype panic_value =
    PanicString string
  | PanicRegister collector string

text \<open>How a run ends: \<open>os.Exit\<close> or a return from \<open>main\<close> (\<open>Exit 0\<close>), an unrecovered
  panic, or never, when \<open>ListenAndServe\<close> does not return.\<close>

datatype outcome = Exit nat | Panic panic_value | Serving

text \<open>The exit status the operating system sees; the Go runtime ends a process that
  panics with status 2.\<close>

fun exit_status :: "outcome \<Rightarrow> nat option" where
  "exit_status (Exit n) = Some n"
| "exit_status (Panic _) = Some 2"
| "exit_status Serving = None"

text \<open>What \<open>http.ListenAndServe\<close> does: it fails to bind and returns the error at once,
  having served nothing; or it binds and serves, and then either never returns or
  returns an error (\<open>None\<close> would be a nil error).\<close>

datatype serve_result = BindFails string | Blocks | Returns "string option"

text \<open>
  The process state: the calls made so far, the collectors this program has added to
  the default registry, and the patterns of \<open>http.DefaultServeMux\<close> in registration order.
\<close>

record state =
  trace :: "event list"
  registry :: "collector list"
  mux :: "(string \<times> handler) list"

text \<open>
  What \<open>main\<close> cannot decide: \<open>Register_error reg col\<close> is the error of the registry's
  \<open>Register\<close> for \<open>col\<close> when \<open>reg\<close> are the collectors added before (\<open>None\<close> is nil),
  \<open>ListenAndServe_result addr\<close> is what the listener does on \<open>addr\<close>, and
  \<open>library_patterns\<close> are the patterns that imported packages have registered on
  \<open>http.DefaultServeMux\<close> during initialisation, before \<open>main\<close> runs.
\<close>

record World =
  environment :: Environment
  Register_error :: "collector list \<Rightarrow> collector \<Rightarrow> string option"
  ListenAndServe_result :: "string \<Rightarrow> serve_result"
  library_patterns :: "(string \<times> handler) list"

type_synonym step = "state \<Rightarrow> state \<times> outcome option"

definition seq :: "step \<Rightarrow> step \<Rightarrow> step" where
  "seq f g s = (case f s of (s', None) \<Rightarrow> g s' | (s', Some out) \<Rightarrow> (s', Some out))"

definition emit :: "event \<Rightarrow> state \<Rightarrow> state" where
  "emit e s = s\<lparr>trace := trace s @ [e]\<rparr>"

text \<open>\<open>level.Info(logger).Log(...)\<close> and \<open>level.Error(logger).Log(...)\<close>: the line is
  written when the filter allows its level.\<close>

definition LogAt :: "logger \<Rightarrow> log_level \<Rightarrow> (string \<times> string) list \<Rightarrow> step" where
  "LogAt lg lvl kvs s =
     (case lg of NewFilter opt \<Rightarrow>
        (if allowed opt lvl then (emit (Log lvl kvs) s, None) else (s, None)))"

text \<open>\<open>prometheus.MustRegister(col)\<close>: panics with the error of \<open>Register\<close>.\<close>

definition MustRegister :: "World \<Rightarrow> collector \<Rightarrow> step" where
  "MustRegister w col s =
     (let s' = emit (CallMustRegister col) s in
      case Register_error w (registry s) col of
        Some err \<Rightarrow> (s', Some (Panic (PanicRegister col err)))
      | None \<Rightarrow> (s'\<lparr>registry := registry s @ [col]\<rparr>, None))"

text \<open>\<open>http.Handle\<close> and \<open>http.HandleFunc\<close> on the default mux: they panic on an empty
  pattern and on a pattern that is registered already.\<close>

definition Handle :: "string \<Rightarrow> handler \<Rightarrow> step" where
  "Handle pattern h s =
     (let s' = emit (CallHandle pattern h) s in
      if pattern = [] then (s', Some (Panic (PanicString ''http: invalid pattern'')))
      else if pattern \<in> fst ` set (mux s)
      then (s', Some (Panic (PanicString (''http: multiple registrations for '' @ pattern))))
      else (s'\<lparr>mux := mux s @ [(pattern, h)]\<rparr>, None))"

text \<open>The last statement of \<open>main\<close>: listen, and on an error log it and exit with 1;
  a nil error lets \<open>main\<close> return.\<close>

definition ListenAndServe :: "World \<Rightarrow> logger \<Rightarrow> string \<Rightarrow> state \<Rightarrow> state \<times> outcome" where
  "ListenAndServe w lg addr s =
     (let s' = emit (CallListenAndServe addr) s in
      case ListenAndServe_result w addr of
        BindFails err \<Rightarrow>
          (fst (LogAt lg LevelError
                  [(''msg'', ''http listenandserve error''), (''err'', err)] s'),
           Exit 1)
      | Blocks \<Rightarrow> (s', Serving)
      | Returns None \<Rightarrow> (s', Exit 0)
      | Returns (Some err) \<Rightarrow>
          (fst (LogAt lg LevelError
                  [(''msg'', ''http listenandserve error''), (''err'', err)] s'),
           Exit 1))"

definition Millisecond :: Duration where
  "Millisecond = 1000000"

definition default_Config :: Config where
  "default_Config =
     \<lparr>Debug = False, DigitalOceanToken = [], HTTPTimeout = 5000,
      WebAddr = '':9212'', WebPath = ''/metrics''\<rparr>"

definition initial_state :: "World \<Rightarrow> state" where
  "initial_state w = \<lparr>trace = [], registry = [], mux = library_patterns w\<rparr>"

text \<open>The ten registrations of \<open>main\<close>, in source order.\<close>

definition register_collectors :: "World \<Rightarrow> Globals \<Rightarrow> logger \<Rightarrow> client \<Rightarrow> Duration \<Rightarrow> step" where
  "register_collectors w g lg cl timeout =
     seq (MustRegister w (NewAccountCollector lg cl timeout))
    (seq (MustRegister w (NewDomainCollector lg cl timeout))
    (seq (MustRegister w (NewDropletCollector lg cl timeout))
    (seq (MustRegister w (NewExporterCollector lg (Version g) (Revision g) (BuildDate g)
                            (GoVersion g) (StartTime g)))
    (seq (MustRegister w (NewFloatingIPCollector lg cl timeout))
    (seq (MustRegister w (NewImageCollector lg cl timeout))
    (seq (MustRegister w (NewKeyCollector lg cl timeout))
    (seq (MustRegister w (NewLoadBalancerCollector lg cl timeout))
    (seq (MustRegister w (NewSnapshotCollector lg cl timeout))
         (MustRegister w (NewVolumeCollector lg cl timeout))))))))))"

text \<open>The configuration \<open>main\<close> works with: the literal of lines 51 to 55 after
  \<open>arg.MustParse\<close> has returned.\<close>

definition load_config :: "World \<Rightarrow> Config" where
  "load_config w = MustParse (environment w) default_Config"

text \<open>\<open>func main\<close> in a run in which \<open>arg.MustParse\<close> returns: the statements of
  lines 58 to 113 on the configuration that lines 49 to 56 have loaded.\<close>

definition main :: "World \<Rightarrow> Globals \<Rightarrow> state \<times> outcome" where
  "main w g =
     (let c = load_config w in
      if DigitalOceanToken c = []
      then (initial_state w, Panic (PanicString ''DigitalOcean Token is required''))
      else
        let filterOption = (if Debug c then AllowDebug else AllowInfo);
            lg = NewFilter filterOption;
            cl = NewClient c;
            timeout = HTTPTimeout c * Millisecond
        in case
             seq (LogAt lg LevelInfo
                    [(''msg'', ''starting digitalocean_exporter''),
                     (''version'', Version g), (''revision'', Revision g),
                     (''buildDate'', BuildDate g), (''goVersion'', GoVersion g)])
            (seq (register_collectors w g lg cl timeout)
            (seq (Handle (WebPath c) promhttp_Handler)
            (seq (Handle ''/'' (HandlerFunc c))
                 (LogAt lg LevelInfo [(''msg'', ''listening''), (''addr'', WebAddr c)]))))
             (initial_state w)
           of
             (s, Some out) \<Rightarrow> (s, out)
           | (s, None) \<Rightarrow> ListenAndServe w lg (WebAddr c) s)"

text \<open>A process run: package initialisation, then \<open>main\<close>.\<close>

definition run :: "World \<Rightarrow> Build \<Rightarrow> Time \<Rightarrow> state \<times> outcome" where
  "run w b now = main w (init_globals b now)"

text \<open>
  What \<open>arg.MustParse\<close> does at line 56: it ends the process itself with an exit
  status (0 after printing the help or version text it was asked for, non-zero after
  reporting a value it cannot parse), or it returns. The whole of \<open>func main\<close>: in the
  first case nothing of lines 58 to 113 runs.
\<close>

datatype parse_outcome = MustParse_exits nat | MustParse_returns

definition program :: "parse_outcome \<Rightarrow> World \<Rightarrow> Globals \<Rightarrow> state \<times> outcome" where
  "program po w g =
     (case po of
        MustParse_exits n \<Rightarrow> (initial_state w, Exit n)
      | MustParse_returns \<Rightarrow> main w g)"

subsection \<open>Reading a run\<close>

text \<open>The collectors \<open>main\<close> constructs, in the order of its ten \<open>MustRegister\<close> calls.\<close>

definition main_collectors :: "Globals \<Rightarrow> logger \<Rightarrow> client \<Rightarrow> Duration \<Rightarrow> collector list" where
  "main_collectors g lg cl timeout =
     [NewAccountCollector lg cl timeout,
      NewDomainCollector lg cl timeout,
      NewDropletCollector lg cl timeout,
      NewExporterCollector lg (Version g) (Revision g) (BuildDate g) (GoVersion g) (StartTime g),
      NewFloatingIPCollector lg cl timeout,
      NewImageCollector lg cl timeout,
      NewKeyCollector lg cl timeout,
      NewLoadBalancerCollector lg cl timeout,
      NewSnapshotCollector lg cl timeout,
      NewVolumeCollector lg cl timeout]"

text \<open>Registering a list of collectors one after the other, stopping at the first panic.\<close>

fun MustRegister_all :: "World \<Rightarrow> collector list \<Rightarrow> step" where
  "MustRegister_all w [] s = (s, None)"
| "MustRegister_all w (col # cols) s = seq (MustRegister w col) (MustRegister_all w cols) s"

text \<open>The logger, client and timeout that \<open>main\<close> builds from a configuration.\<close>

definition main_logger :: "Config \<Rightarrow> logger" where
  "main_logger c = NewFilter (if Debug c then AllowDebug else AllowInfo)"

definition main_timeout :: "Config \<Rightarrow> Duration" where
  "main_timeout c = HTTPTimeout c * Millisecond"

text \<open>The collectors of the \<open>MustRegister\<close> calls in a trace, and whether a call is one
  of them or the start of the listener.\<close>

fun register_calls :: "event list \<Rightarrow> collector list" where
  "register_calls [] = []"
| "register_calls (CallMustRegister col # es) = col # register_calls es"
| "register_calls (_ # es) = register_calls es"

fun is_listen :: "event \<Rightarrow> bool" where
  "is_listen (CallListenAndServe _) = True"
| "is_listen _ = False"

text \<open>The lines \<open>main\<close> logs.\<close>

definition starting_line :: "Globals \<Rightarrow> event" where
  "starting_line g =
     Log LevelInfo
       [(''msg'', ''starting digitalocean_exporter''),
        (''version'', Version g), (''revision'', Revision g),
        (''buildDate'', BuildDate g), (''goVersion'', GoVersion g)]"

definition listening_line :: "Config \<Rightarrow> event" where
  "listening_line c = Log LevelInfo [(''msg'', ''listening''), (''addr'', WebAddr c)]"

definition error_line :: "string \<Rightarrow> event" where
  "error_line err = Log LevelError [(''msg'', ''http listenandserve error''), (''err'', err)]"

definition token_panic :: outcome where
  "token_panic = Panic (PanicString ''DigitalOcean Token is required'')"

text \<open>The ten collectors of a run, and the state in which \<open>main\<close> calls the listener
  when nothing has panicked before.\<close>

definition run_collectors :: "World \<Rightarrow> Globals \<Rightarrow> collector list" where
  "run_collectors w g =
     (let c = load_config w in
      main_collectors g (main_logger c) (NewClient c) (main_timeout c))"

definition registered_trace :: "World \<Rightarrow> Globals \<Rightarrow> event list" where
  "registered_trace w g = starting_line g # map CallMustRegister (run_collectors w g)"

definition listening_state :: "World \<Rightarrow> Globals \<Rightarrow> state" where
  "listening_state w g =
     (let c = load_config w in
      \<lparr>trace = registered_trace w g @
                [CallHandle (WebPath c) promhttp_Handler, CallHandle ''/'' (HandlerFunc c),
                 listening_line c],
       registry = run_collectors w g,
       mux = library_patterns w @ [(WebPath c, promhttp_Handler), (''/'', HandlerFunc c)]\<rparr>)"

text \<open>Every registration of the run is accepted.\<close>

definition all_accepted :: "World \<Rightarrow> Globals \<Rightarrow> bool" where
  "all_accepted w g =
     list_all
       (\<lambda>k. Register_error w (take k (run_collectors w g)) (run_collectors w g ! k) = None)
       [0..<length (run_collectors w g)]"

text \<open>Both handler registrations of the run are accepted: the scrape path is not empty
  and no pattern is registered twice.\<close>

definition handlers_accepted :: "World \<Rightarrow> bool" where
  "handlers_accepted w =
     (let c = load_config w in
      WebPath c \<noteq> [] \<and> WebPath c \<noteq> ''/'' \<and>
      WebPath c \<notin> fst ` set (library_patterns w) \<and> ''/'' \<notin> fst ` set (library_patterns w))"

text \<open>The panic of \<open>http.Handle\<close> or \<open>http.HandleFunc\<close> when one of the two
  registrations is refused: the empty scrape path, then a scrape path that is
  registered already, then the pattern \<open>/\<close> registered already.\<close>

definition handler_panic :: "World \<Rightarrow> string" where
  "handler_panic w =
     (let c = load_config w in
      if WebPath c = [] then ''http: invalid pattern''
      else if WebPath c \<in> fst ` set (library_patterns w)
      then ''http: multiple registrations for '' @ WebPath c
      else ''http: multiple registrations for /'')"

subsection \<open>Serving requests\<close>

text \<open>
  \<open>ListenAndServe(addr, nil)\<close> serves with \<open>http.DefaultServeMux\<close>. Of a request the
  mux reads the method, the host (without its port, except for \<open>CONNECT\<close>) and the path
  of the request URL (\<open>r.URL.Path\<close>, not yet cleaned); the path \<open>*\<close> stands for the
  request target \<open>*\<close>. Dispatch follows net/http's \<open>ServeMux\<close> as it was before method and wildcard
  patterns: the path is cleaned first and a request for another spelling of it is
  redirected; then an exact pattern wins, then the longest registered pattern that
  ends in a slash and is a prefix.
\<close>

record Request =
  Method :: string
  Host :: string
  Path :: string

text \<open>An answer: status and body written by a handler of \<open>main\<close>, the scrape, what a
  library's handler answers, and the answers of the mux itself (301, 404, 400).\<close>

datatype response =
    Written nat string
  | Scrape
  | LibraryResponse string
  | MovedPermanently string
  | NotFound
  | BadRequest

text \<open>The page the function literal of \<open>main\<close> writes (a raw string literal: the line
  breaks and the three tabs of indentation are part of it).\<close>

definition landing_page :: "Config \<Rightarrow> string" where
  \<open>landing_page c =
     ''<html>'' @ [CHR 0x0A, CHR 0x09, CHR 0x09, CHR 0x09] @
     ''<head><title>DigitalOcean Exporter</title></head>'' @ [CHR 0x0A, CHR 0x09, CHR 0x09, CHR 0x09] @
     ''<body>'' @ [CHR 0x0A, CHR 0x09, CHR 0x09, CHR 0x09] @
     ''<h1>DigitalOcean Exporter</h1>'' @ [CHR 0x0A, CHR 0x09, CHR 0x09, CHR 0x09] @
     ''<p><a href="'' @ WebPath c @ ''">Metrics</a></p>'' @ [CHR 0x0A, CHR 0x09, CHR 0x09, CHR 0x09] @
     ''</body>'' @ [CHR 0x0A, CHR 0x09, CHR 0x09, CHR 0x09] @
     ''</html>''\<close>

text \<open>A handler's answer. The function literal ignores the request and only calls
  \<open>w.Write\<close>, which sends status 200 before the body; to a \<open>HEAD\<close> request the
  server sends the status and discards the body written. What \<open>promhttp.Handler()\<close>
  answers is the scrape, which is not \<open>main\<close>'s.\<close>

fun ServeHTTP :: "handler \<Rightarrow> Request \<Rightarrow> response" where
  "ServeHTTP promhttp_Handler r = Scrape"
| "ServeHTTP (HandlerFunc c) r =
     Written 200 (if Method r = ''HEAD'' then [] else landing_page c)"
| "ServeHTTP (LibraryHandler name) r = LibraryResponse name"

text \<open>\<open>strings.Split\<close> on one separator character.\<close>

fun split_on :: "char \<Rightarrow> string \<Rightarrow> string list" where
  "split_on sep [] = [[]]"
| "split_on sep (x # xs) =
     (if x = sep then [] # split_on sep xs
      else case split_on sep xs of
             [] \<Rightarrow> [[x]]
           | seg # segs \<Rightarrow> (x # seg) # segs)"

fun join_slash :: "string list \<Rightarrow> string" where
  "join_slash [] = []"
| "join_slash [seg] = seg"
| "join_slash (seg # segs) = seg @ ''/'' @ join_slash segs"

text \<open>
  \<open>path.Clean\<close> on a rooted path: empty and \<open>.\<close> elements go, a \<open>..\<close> element goes
  together with the element before it (at the root, alone), and the result ends in a
  slash only when it is the root.
\<close>

definition clean_element :: "string list \<Rightarrow> string \<Rightarrow> string list" where
  "clean_element kept seg =
     (if seg = [] \<or> seg = ''.'' then kept
      else if seg = ''..'' then butlast kept
      else kept @ [seg])"

definition path_Clean :: "string \<Rightarrow> string" where
  "path_Clean p = CHR ''/'' # join_slash (foldl clean_element [] (split_on CHR ''/'' p))"

text \<open>net/http's \<open>cleanPath\<close>: the empty path is the root, a path is made rooted,
  cleaned, and given back the trailing slash it had.\<close>

definition cleanPath :: "string \<Rightarrow> string" where
  "cleanPath p =
     (if p = [] then ''/''
      else let p' = (if hd p \<noteq> CHR ''/'' then CHR ''/'' # p else p);
               np = path_Clean p'
           in if last p' = CHR ''/'' \<and> np \<noteq> ''/'' then np @ ''/'' else np)"

fun longest_entry :: "(string \<times> handler) list \<Rightarrow> (string \<times> handler) option" where
  "longest_entry [] = None"
| "longest_entry (e # es) =
     (case longest_entry es of
        None \<Rightarrow> Some e
      | Some e' \<Rightarrow> if length (fst e) < length (fst e') then Some e' else Some e)"

definition subtree_pattern :: "string \<Rightarrow> bool" where
  "subtree_pattern pat = (pat \<noteq> [] \<and> last pat = CHR ''/'')"

text \<open>\<open>mux.match\<close>\<close>

definition mux_match :: "(string \<times> handler) list \<Rightarrow> string \<Rightarrow> handler option" where
  "mux_match m p =
     (case map_of m p of
        Some h \<Rightarrow> Some h
      | None \<Rightarrow>
          map_option snd
            (longest_entry (filter (\<lambda>e. subtree_pattern (fst e) \<and> prefix (fst e) p) m)))"

text \<open>\<open>mux.hosts\<close>: some pattern does not start with a slash.\<close>

definition mux_hosts :: "(string \<times> handler) list \<Rightarrow> bool" where
  "mux_hosts m = list_ex (\<lambda>e. \<not> prefix ''/'' (fst e)) m"

text \<open>\<open>mux.handler\<close>: a host-specific pattern wins over a general one.\<close>

definition mux_handler :: "(string \<times> handler) list \<Rightarrow> string \<Rightarrow> string \<Rightarrow> handler option" where
  "mux_handler m host p =
     (case (if mux_hosts m then mux_match m (host @ p) else None) of
        Some h \<Rightarrow> Some h
      | None \<Rightarrow> mux_match m p)"

text \<open>\<open>mux.shouldRedirectRLocked\<close>: the path names a registered subtree without its
  trailing slash.\<close>

definition shouldRedirect :: "(string \<times> handler) list \<Rightarrow> string \<Rightarrow> string \<Rightarrow> bool" where
  "shouldRedirect m host p =
     (if map_of m p \<noteq> None \<or> map_of m (host @ p) \<noteq> None then False
      else if p = [] then False
      else if map_of m (p @ ''/'') \<noteq> None \<or> map_of m (host @ p @ ''/'') \<noteq> None
      then last p \<noteq> CHR ''/''
      else False)"

text \<open>The handler the mux has found, or its own 404.\<close>

definition answer :: "handler option \<Rightarrow> Request \<Rightarrow> response" where
  "answer found r = (case found of None \<Rightarrow> NotFound | Some h \<Rightarrow> ServeHTTP h r)"

text \<open>
  The server and \<open>ServeMux.ServeHTTP\<close> for a request. The request target \<open>*\<close> never
  reaches a handler: the server answers \<open>OPTIONS *\<close> itself, with status 200 and no
  body, and the mux answers any other method with 400. A \<open>CONNECT\<close> request is
  dispatched on its path as sent. Any other request is dispatched on its cleaned path,
  and answered with a redirect to the cleaned path when that differs from the path
  sent.
\<close>

definition mux_ServeHTTP :: "(string \<times> handler) list \<Rightarrow> Request \<Rightarrow> response" where
  "mux_ServeHTTP m r =
     (if Path r = ''*'' then (if Method r = ''OPTIONS'' then Written 200 [] else BadRequest)
      else if Method r = ''CONNECT'' then
        (if shouldRedirect m (Host r) (Path r) then MovedPermanently (Path r @ ''/'')
         else answer (mux_handler m (Host r) (Path r)) r)
      else
        let p = cleanPath (Path r) in
        if shouldRedirect m (Host r) p then MovedPermanently (p @ ''/'')
        else if p \<noteq> Path r then MovedPermanently p
        else answer (mux_handler m (Host r) (Path r)) r)"

text \<open>A run reaches the listener when \<open>main\<close> calls \<open>ListenAndServe\<close>. The listener
  serves when it has also bound its address; the answer to a request then comes from
  the mux as \<open>main\<close> left it. A listener that fails to bind answers nothing.\<close>

definition listening :: "World \<Rightarrow> Globals \<Rightarrow> bool" where
  "listening w g = list_ex is_listen (trace (fst (main w g)))"

definition serving :: "World \<Rightarrow> Globals \<Rightarrow> bool" where
  "serving w g =
     (listening w g \<and>
      (case ListenAndServe_result w (WebAddr (load_config w)) of
         BindFails err \<Rightarrow> False
       | Blocks \<Rightarrow> True
       | Returns err \<Rightarrow> True))"

definition served_response :: "World \<Rightarrow> Globals \<Rightarrow> Request \<Rightarrow> response option" where
  "served_response w g r =
     (if serving w g then Some (mux_ServeHTTP (mux (fst (main w g))) r) else None)"

text \<open>When the handler of a pattern serves a string the mux looks up: the pattern is
  the string, or it is a subtree that holds the string.\<close>

definition serves_pattern :: "string \<Rightarrow> string \<Rightarrow> bool" where
  "serves_pattern pat p = (p = pat \<or> (subtree_pattern pat \<and> prefix pat p))"

text \<open>When a pattern applies to a string the mux looks up: its handler serves it, or
  the string is the subtree root without its trailing slash (which the mux
  redirects).\<close>

definition pattern_matches :: "string \<Rightarrow> string \<Rightarrow> bool" where
  "pattern_matches pat p = (serves_pattern pat p \<or> p @ ''/'' = pat)"

definition request_matches :: "string \<Rightarrow> Request \<Rightarrow> bool" where
  "request_matches pat r =
     (pattern_matches pat (Path r) \<or> pattern_matches pat (Host r @ Path r))"

text \<open>A registered pattern other than \<open>/\<close> applies to the request; a registered
  pattern other than \<open>/\<close> is host-specific for a string.\<close>

definition other_pattern_matches :: "(string \<times> handler) list \<Rightarrow> Request \<Rightarrow> bool" where
  "other_pattern_matches m r = list_ex (\<lambda>e. fst e \<noteq> ''/'' \<and> request_matches (fst e) r) m"

definition other_pattern_serves :: "(string \<times> handler) list \<Rightarrow> string \<Rightarrow> bool" where
  "other_pattern_serves m p = list_ex (\<lambda>e. fst e \<noteq> ''/'' \<and> serves_pattern (fst e) p) m"

text \<open>
  Reading the page as HTML. In a double-quoted attribute value a reader copies every
  character but four: the double quote ends the value, the ampersand starts a
  character reference, NUL is replaced and a carriage return becomes a line feed.
  Bytes outside ASCII are left out here.
\<close>

definition literal_char :: "char \<Rightarrow> bool" where
  "literal_char ch =
     (ch \<noteq> CHR 0x22 \<and> ch \<noteq> CHR ''&'' \<and> ch \<noteq> CHR 0x00 \<and> ch \<noteq> CHR 0x0D \<and>
      (of_char ch :: nat) < 128)"

text \<open>The decoded attribute value: \<open>&amp;\<close> is an ampersand; \<open>None\<close> for a text with
  any other character that is not copied, whose reading is not modelled.\<close>

function decode_value :: "string \<Rightarrow> string option" where
  "decode_value [] = Some []"
| "decode_value (x # xs) =
     (if prefix ''&amp;'' (x # xs) then map_option (Cons CHR ''&'') (decode_value (drop 4 xs))
      else if literal_char x then map_option (Cons x) (decode_value xs)
      else None)"
  by pat_completeness auto
termination
  by (relation "measure length") auto

text \<open>The target of the first hyperlink of an HTML text: the decoded value of the
  attribute that \<open><a href="\<close> opens and the next double quote closes.\<close>

fun hyperlink_target :: "string \<Rightarrow> string option" where
  "hyperlink_target [] = None"
| \<open>hyperlink_target (x # xs) =
     (if prefix ''<a href="'' (x # xs)
      then (if CHR 0x22 \<in> set (drop 8 xs)
            then decode_value (takeWhile (\<lambda>ch. ch \<noteq> CHR 0x22) (drop 8 xs))
            else None)
      else hyperlink_target xs)\<close>

subsection \<open>The registry of the specification\<close>

text \<open>A metric descriptor, as far as collisions go: the fully-qualified name and the
  label names (the label schema).\<close>

type_synonym descriptor = "string \<times> string list"

text \<open>
  Modelled from the spec: the \<open>Describe\<close> methods of package \<open>collector\<close> are not in
  the file, so what each collector declares is the parameter \<open>D\<close>. Section 4.3 calls it
  a collision when ``two collectors declare metrics with the same fully-qualified name
  and label schema''.
\<close>

definition collides :: "(collector \<Rightarrow> descriptor list) \<Rightarrow> collector \<Rightarrow> collector \<Rightarrow> bool" where
  "collides D a b = list_ex (\<lambda>d. d \<in> set (D b)) (D a)"

text \<open>
  Modelled from the spec: the registry's \<open>Register\<close> (Prometheus client library) is
  not in the file. Section 4.3: ``Register(collector): adds a collector to the active
  set. Fails fast at startup if two collectors declare metrics with the same
  fully-qualified name and label schema''. \<open>None\<close> is the nil error, after which
  \<open>MustRegister\<close> adds the collector.
\<close>

definition spec_Register_error ::
  "(collector \<Rightarrow> descriptor list) \<Rightarrow> collector list \<Rightarrow> collector \<Rightarrow> string option" where
  "spec_Register_error D reg col =
     (if list_ex (collides D col) reg then Some ''colliding metric name and label schema''
      else None)"

subsection \<open>Example runs\<close>

definition no_environment :: Environment where
  "no_environment =
     \<lparr>env_DEBUG = None, env_DIGITALOCEAN_TOKEN = None, env_HTTP_TIMEOUT = None,
      env_WEB_ADDR = None, env_WEB_PATH = None\<rparr>"

definition token_environment :: Environment where
  "token_environment = no_environment\<lparr>env_DIGITALOCEAN_TOKEN := Some ''dop_v1_0123''\<rparr>"

text \<open>A world that accepts every registration and whose listener fails to bind; the
  mux holds the pattern of package expvar.\<close>

definition example_world :: "Environment \<Rightarrow> World" where
  "example_world e =
     \<lparr>environment = e, Register_error = (\<lambda>reg col. None),
      ListenAndServe_result = (\<lambda>addr. BindFails ''bind: address already in use''),
      library_patterns = [(''/debug/vars'', LibraryHandler ''expvar'')]\<rparr>"

text \<open>The same world with a listener that binds and serves without end.\<close>

definition serving_world :: "Environment \<Rightarrow> World" where
  "serving_world e = (example_world e)\<lparr>ListenAndServe_result := (\<lambda>addr. Blocks)\<rparr>"

definition example_build :: Build where
  "example_build =
     \<lparr>ld_Version = ''0.6.1'', ld_Revision = ''a1b2c3d'', ld_BuildDate = ''20200101'',
      runtime_Version = ''go1.13''\<rparr>"

definition example_globals :: Globals where
  "example_globals = init_globals example_build 1577836800"

text \<open>Every collector declares one metric named after its resource type.\<close>

fun example_Describe :: "collector \<Rightarrow> descriptor list" where
  "example_Describe (NewAccountCollector _ _ _) = [(''digitalocean_account'', [])]"
| "example_Describe (NewDomainCollector _ _ _) = [(''digitalocean_domain'', [])]"
| "example_Describe (NewDropletCollector _ _ _) = [(''digitalocean_droplet'', [])]"
| "example_Describe (NewExporterCollector _ _ _ _ _ _) = [(''digitalocean_exporter'', [])]"
| "example_Describe (NewFloatingIPCollector _ _ _) = [(''digitalocean_floating_ip'', [])]"
| "example_Describe (NewImageCollector _ _ _) = [(''digitalocean_image'', [])]"
| "example_Describe (NewKeyCollector _ _ _) = [(''digitalocean_key'', [])]"
| "example_Describe (NewLoadBalancerCollector _ _ _) = [(''digitalocean_loadbalancer'', [])]"
| "example_Describe (NewSnapshotCollector _ _ _) = [(''digitalocean_snapshot'', [])]"
| "example_Describe (NewVolumeCollector _ _ _) = [(''digitalocean_volume'', [])]"

text \<open>Every collector declares the same metric.\<close>

definition clashing_Describe :: "collector \<Rightarrow> descriptor list" where
  "clashing_Describe col = [(''digitalocean_up'', [''id''])]"

text \<open>A world whose registry is the specification's, for declarations \<open>D\<close>.\<close>

definition spec_world :: "(collector \<Rightarrow> descriptor list) \<Rightarrow> Environment \<Rightarrow> World" where
  "spec_world D e =
     \<lparr>environment = e, Register_error = spec_Register_error D,
      ListenAndServe_result = (\<lambda>addr. Blocks), library_patterns = []\<rparr>"

text \<open>Serving runs with other scrape paths: the root itself, a path with a double
  quote in it, a path with a character reference in it, and a host-specific pattern.\<close>

definition root_path_world :: World where
  "root_path_world = serving_world (token_environment\<lparr>env_WEB_PATH := Some ''/''\<rparr>)"

definition quoted_path_world :: World where
  \<open>quoted_path_world = serving_world (token_environment\<lparr>env_WEB_PATH := Some ''/m"x''\<rparr>)\<close>

definition reference_path_world :: World where
  "reference_path_world = serving_world (token_environment\<lparr>env_WEB_PATH := Some ''/a&amp;b''\<rparr>)"

definition host_path_world :: World where
  "host_path_world = serving_world (token_environment\<lparr>env_WEB_PATH := Some ''localhost/''\<rparr>)"

text \<open>Requests: for the root path, for a path no pattern but \<open>/\<close> applies to, for
  another spelling of that path, for the request target \<open>*\<close>, and for the headers
  alone.\<close>

definition get_root :: Request where
  "get_root = \<lparr>Method = ''GET'', Host = ''localhost'', Path = ''/''\<rparr>"

definition get_favicon :: Request where
  "get_favicon = \<lparr>Method = ''GET'', Host = ''localhost'', Path = ''/favicon.ico''\<rparr>"

definition get_double_slash :: Request where
  "get_double_slash = \<lparr>Method = ''GET'', Host = ''localhost'', Path = ''//favicon.ico''\<rparr>"

definition options_asterisk :: Request where
  "options_asterisk = \<lparr>Method = ''OPTIONS'', Host = ''localhost'', Path = ''*''\<rparr>"

definition head_favicon :: Request where
  "head_favicon = \<lparr>Method = ''HEAD'', Host = ''localhost'', Path = ''/favicon.ico''\<rparr>"

section \<open>How a run of \<open>main\<close> unfolds\<close>

lemma all_accepted_iff:
  "all_accepted w g \<longleftrightarrow>
     (\<forall>k<length (run_collectors w g).
        Register_error w (take k (run_collectors w g)) (run_collectors w g ! k) = None)"
  by (auto simp: all_accepted_def list_all_iff)

lemma MustRegister_all_result:
  "MustRegister_all w cs s = (s', r) \<Longrightarrow>
     (r = None \<and> trace s' = trace s @ map CallMustRegister cs \<and>
      registry s' = registry s @ cs \<and> mux s' = mux s \<and>
      (\<forall>k<length cs. Register_error w (registry s @ take k cs) (cs ! k) = None))
   \<or> (\<exists>k<length cs. \<exists>err.
        r = Some (Panic (PanicRegister (cs ! k) err)) \<and>
        Register_error w (registry s @ take k cs) (cs ! k) = Some err \<and>
        (\<forall>j<k. Register_error w (registry s @ take j cs) (cs ! j) = None) \<and>
        trace s' = trace s @ map CallMustRegister (take (Suc k) cs) \<and>
        registry s' = registry s @ take k cs \<and> mux s' = mux s)"
proof (induction cs arbitrary: s s' r)
  case Nil
  then show ?case by simp
next
  case (Cons c cs)
  show ?case
  proof (cases "Register_error w (registry s) c")
    case (Some err)
    with Cons.prems have "s' = emit (CallMustRegister c) s" "r = Some (Panic (PanicRegister c err))"
      by (auto simp: seq_def MustRegister_def Let_def)
    with Some show ?thesis
      by (intro disjI2 exI[of _ 0]) (simp add: emit_def)
  next
    case None
    define s1 where "s1 = (emit (CallMustRegister c) s)\<lparr>registry := registry s @ [c]\<rparr>"
    from None Cons.prems have rest: "MustRegister_all w cs s1 = (s', r)"
      by (simp add: seq_def MustRegister_def Let_def s1_def)
    have s1: "trace s1 = trace s @ [CallMustRegister c]" "registry s1 = registry s @ [c]" "mux s1 = mux s"
      by (simp_all add: s1_def emit_def)
    from Cons.IH[OF rest] show ?thesis
    proof
      assume a: "r = None \<and> trace s' = trace s1 @ map CallMustRegister cs \<and>
        registry s' = registry s1 @ cs \<and> mux s' = mux s1 \<and>
        (\<forall>k<length cs. Register_error w (registry s1 @ take k cs) (cs ! k) = None)"
      have "\<forall>k<length (c # cs). Register_error w (registry s @ take k (c # cs)) ((c # cs) ! k) = None"
      proof (intro allI impI)
        fix k assume "k < length (c # cs)"
        then show "Register_error w (registry s @ take k (c # cs)) ((c # cs) ! k) = None"
          using a None s1 by (cases k) auto
      qed
      with a s1 show ?thesis by simp
    next
      assume "\<exists>k<length cs. \<exists>err.
        r = Some (Panic (PanicRegister (cs ! k) err)) \<and>
        Register_error w (registry s1 @ take k cs) (cs ! k) = Some err \<and>
        (\<forall>j<k. Register_error w (registry s1 @ take j cs) (cs ! j) = None) \<and>
        trace s' = trace s1 @ map CallMustRegister (take (Suc k) cs) \<and>
        registry s' = registry s1 @ take k cs \<and> mux s' = mux s1"
      then obtain k err where k: "k < length cs"
        "r = Some (Panic (PanicRegister (cs ! k) err))"
        "Register_error w (registry s1 @ take k cs) (cs ! k) = Some err"
        "\<forall>j<k. Register_error w (registry s1 @ take j cs) (cs ! j) = None"
        "trace s' = trace s1 @ map CallMustRegister (take (Suc k) cs)"
        "registry s' = registry s1 @ take k cs" "mux s' = mux s1"
        by blast
      have "\<forall>j<Suc k. Register_error w (registry s @ take j (c # cs)) ((c # cs) ! j) = None"
      proof (intro allI impI)
        fix j assume "j < Suc k"
        then show "Register_error w (registry s @ take j (c # cs)) ((c # cs) ! j) = None"
          using k(4) None s1 by (cases j) auto
      qed
      with k s1 show ?thesis
        by (intro disjI2 exI[of _ "Suc k"]) simp
    qed
  qed
qed

lemma register_collectors_eq:
  "register_collectors w g lg cl t = MustRegister_all w (main_collectors g lg cl t)"
  by (rule ext) (simp add: register_collectors_def main_collectors_def seq_def split: prod.splits option.splits)

lemma length_run_collectors: "length (run_collectors w g) = 10"
  by (simp add: run_collectors_def main_collectors_def Let_def)

lemma LogAt_error: "LogAt (main_logger c) LevelError kvs s = (emit (Log LevelError kvs) s, None)"
  by (simp add: LogAt_def main_logger_def)

lemma main_unfold:
  "main w g =
     (let c = load_config w in
      if DigitalOceanToken c = [] then (initial_state w, token_panic)
      else case MustRegister_all w (run_collectors w g) (emit (starting_line g) (initial_state w)) of
          (s, Some out) \<Rightarrow> (s, out)
        | (s, None) \<Rightarrow>
           (case Handle (WebPath c) promhttp_Handler s of
              (s, Some out) \<Rightarrow> (s, out)
            | (s, None) \<Rightarrow>
               (case Handle ''/'' (HandlerFunc c) s of
                  (s, Some out) \<Rightarrow> (s, out)
                | (s, None) \<Rightarrow>
                    ListenAndServe w (main_logger c) (WebAddr c) (emit (listening_line c) s))))"
  unfolding main_def Let_def register_collectors_eq token_panic_def
  by (simp add: seq_def LogAt_def run_collectors_def Let_def
      main_logger_def main_timeout_def starting_line_def listening_line_def
      split: prod.splits option.splits)

text \<open>The four ways a run of \<open>main\<close> can go: the token panic, a refused registration,
  a refused handler, or the call of the listener.\<close>

lemma main_cases:
  "(DigitalOceanToken (load_config w) = [] \<and> main w g = (initial_state w, token_panic))
 \<or> (DigitalOceanToken (load_config w) \<noteq> [] \<and>
     (\<exists>k<10. \<exists>err.
        Register_error w (take k (run_collectors w g)) (run_collectors w g ! k) = Some err \<and>
        main w g =
          (\<lparr>trace = starting_line g # map CallMustRegister (take (Suc k) (run_collectors w g)),
            registry = take k (run_collectors w g), mux = library_patterns w\<rparr>,
           Panic (PanicRegister (run_collectors w g ! k) err))))
 \<or> (DigitalOceanToken (load_config w) \<noteq> [] \<and> all_accepted w g \<and> \<not> handlers_accepted w \<and>
     (\<exists>hs m.
        main w g =
          (\<lparr>trace = registered_trace w g @ hs, registry = run_collectors w g, mux = m\<rparr>,
           Panic (PanicString (handler_panic w))) \<and>
        (\<forall>e\<in>set hs. \<not> is_listen e) \<and> register_calls hs = []))
 \<or> (DigitalOceanToken (load_config w) \<noteq> [] \<and> all_accepted w g \<and> handlers_accepted w \<and>
     main w g =
       ListenAndServe w (main_logger (load_config w)) (WebAddr (load_config w))
         (listening_state w g))"
proof (cases "DigitalOceanToken (load_config w) = []")
  case True
  then show ?thesis by (simp add: main_unfold)
next
  case tok: False
  let ?c = "load_config w"
  let ?cs = "run_collectors w g"
  let ?lib = "library_patterns w"
  let ?s0 = "emit (starting_line g) (initial_state w)"
  obtain s' r where reg: "MustRegister_all w ?cs ?s0 = (s', r)"
    by (cases "MustRegister_all w ?cs ?s0")
  have s0: "trace ?s0 = [starting_line g]" "registry ?s0 = []" "mux ?s0 = ?lib"
    by (simp_all add: emit_def initial_state_def)
  from MustRegister_all_result[OF reg] show ?thesis
  proof
    assume "r = None \<and> trace s' = trace ?s0 @ map CallMustRegister ?cs \<and>
      registry s' = registry ?s0 @ ?cs \<and> mux s' = mux ?s0 \<and>
      (\<forall>k<length ?cs. Register_error w (registry ?s0 @ take k ?cs) (?cs ! k) = None)"
    then have r: "r = None"
      and s': "s' = \<lparr>trace = registered_trace w g, registry = ?cs, mux = ?lib\<rparr>"
      and acc: "all_accepted w g"
      using s0 by (auto simp: registered_trace_def all_accepted_iff)
    have m: "main w g =
       (case Handle (WebPath ?c) promhttp_Handler s' of
              (s, Some out) \<Rightarrow> (s, out)
            | (s, None) \<Rightarrow>
               (case Handle ''/'' (HandlerFunc ?c) s of
                  (s, Some out) \<Rightarrow> (s, out)
                | (s, None) \<Rightarrow>
                    ListenAndServe w (main_logger ?c) (WebAddr ?c) (emit (listening_line ?c) s)))"
      using tok reg r by (simp add: main_unfold Let_def)
    consider (first) "WebPath ?c = [] \<or> WebPath ?c \<in> fst ` set ?lib"
      | (second) "WebPath ?c \<noteq> []" "WebPath ?c \<notin> fst ` set ?lib"
          "''/'' \<in> fst ` set ?lib \<or> WebPath ?c = ''/''"
      | (ok) "handlers_accepted w"
      by (auto simp: handlers_accepted_def Let_def)
    then show ?thesis
    proof cases
      case first
      then have na: "\<not> handlers_accepted w" by (auto simp: handlers_accepted_def Let_def)
      have "main w g =
          (\<lparr>trace = registered_trace w g @ [CallHandle (WebPath ?c) promhttp_Handler],
            registry = ?cs, mux = ?lib\<rparr>,
           Panic (PanicString (handler_panic w)))"
        using first by (auto simp: m s' Handle_def Let_def emit_def handler_panic_def)
      then have "\<exists>hs m.
        main w g =
          (\<lparr>trace = registered_trace w g @ hs, registry = ?cs, mux = m\<rparr>,
           Panic (PanicString (handler_panic w))) \<and>
        (\<forall>e\<in>set hs. \<not> is_listen e) \<and> register_calls hs = []"
        by (intro exI[of _ "[CallHandle (WebPath ?c) promhttp_Handler]"] exI[of _ ?lib]) simp
      with tok acc na show ?thesis by blast
    next
      case second
      then have na: "\<not> handlers_accepted w" by (auto simp: handlers_accepted_def Let_def)
      have "main w g =
          (\<lparr>trace = registered_trace w g @
                     [CallHandle (WebPath ?c) promhttp_Handler, CallHandle ''/'' (HandlerFunc ?c)],
            registry = ?cs, mux = ?lib @ [(WebPath ?c, promhttp_Handler)]\<rparr>,
           Panic (PanicString (handler_panic w)))"
        using second by (auto simp: m s' Handle_def Let_def emit_def handler_panic_def)
      then have "\<exists>hs m.
        main w g =
          (\<lparr>trace = registered_trace w g @ hs, registry = ?cs, mux = m\<rparr>,
           Panic (PanicString (handler_panic w))) \<and>
        (\<forall>e\<in>set hs. \<not> is_listen e) \<and> register_calls hs = []"
        by (intro exI[of _ "[CallHandle (WebPath ?c) promhttp_Handler,
              CallHandle ''/'' (HandlerFunc ?c)]"]
            exI[of _ "?lib @ [(WebPath ?c, promhttp_Handler)]"]) simp
      with tok acc na show ?thesis by blast
    next
      case ok
      then have "main w g =
         ListenAndServe w (main_logger ?c) (WebAddr ?c) (listening_state w g)"
        by (auto simp: m s' Handle_def Let_def emit_def listening_state_def handlers_accepted_def)
      with tok acc ok show ?thesis by blast
    qed
  next
    assume "\<exists>k<length ?cs. \<exists>err.
        r = Some (Panic (PanicRegister (?cs ! k) err)) \<and>
        Register_error w (registry ?s0 @ take k ?cs) (?cs ! k) = Some err \<and>
        (\<forall>j<k. Register_error w (registry ?s0 @ take j ?cs) (?cs ! j) = None) \<and>
        trace s' = trace ?s0 @ map CallMustRegister (take (Suc k) ?cs) \<and>
        registry s' = registry ?s0 @ take k ?cs \<and> mux s' = mux ?s0"
    then obtain k err where k: "k < 10" "r = Some (Panic (PanicRegister (?cs ! k) err))"
      "Register_error w (take k ?cs) (?cs ! k) = Some err"
      "s' = \<lparr>trace = starting_line g # map CallMustRegister (take (Suc k) ?cs),
             registry = take k ?cs, mux = ?lib\<rparr>"
      using s0 by (auto simp: length_run_collectors)
    have "main w g = (s', Panic (PanicRegister (?cs ! k) err))"
      using tok reg k(2) by (simp add: main_unfold)
    with tok k show ?thesis by blast
  qed
qed

lemma listen_split_unique:
  assumes "xs @ CallListenAndServe a # ys = pre @ CallListenAndServe b # post"
    and "\<forall>e\<in>set xs. \<not> is_listen e" and "\<forall>e\<in>set ys. \<not> is_listen e"
  shows "pre = xs \<and> b = a \<and> post = ys"
  using assms
proof (induction xs arbitrary: pre)
  case Nil
  then show ?case by (cases pre) auto
next
  case (Cons x xs)
  then show ?case by (cases pre) auto
qed

lemma no_listen_no_split:
  "\<forall>e\<in>set xs. \<not> is_listen e \<Longrightarrow> xs \<noteq> pre @ CallListenAndServe b # post"
  by auto

lemma register_calls_append: "register_calls (xs @ ys) = register_calls xs @ register_calls ys"
  by (induction xs rule: register_calls.induct) simp_all

lemma register_calls_map: "register_calls (map CallMustRegister cs) = cs"
  by (induction cs) simp_all

lemma register_calls_registered: "register_calls (registered_trace w g) = run_collectors w g"
  by (simp add: registered_trace_def starting_line_def register_calls_map)

lemma not_listen_registered: "\<forall>e\<in>set (registered_trace w g). \<not> is_listen e"
  by (auto simp: registered_trace_def starting_line_def)

lemma ListenAndServe_main_logger:
  "ListenAndServe w (main_logger c) addr s =
     (case ListenAndServe_result w addr of
        BindFails err \<Rightarrow> (emit (error_line err) (emit (CallListenAndServe addr) s), Exit 1)
      | Blocks \<Rightarrow> (emit (CallListenAndServe addr) s, Serving)
      | Returns None \<Rightarrow> (emit (CallListenAndServe addr) s, Exit 0)
      | Returns (Some err) \<Rightarrow> (emit (error_line err) (emit (CallListenAndServe addr) s), Exit 1))"
  by (simp add: ListenAndServe_def Let_def LogAt_error error_line_def
      split: serve_result.splits option.splits)

lemma main_listening:
  assumes "DigitalOceanToken (load_config w) \<noteq> []" "all_accepted w g" "handlers_accepted w"
  shows "\<exists>post. trace (fst (main w g)) =
           trace (listening_state w g) @ CallListenAndServe (WebAddr (load_config w)) # post \<and>
         (post = [] \<or> (\<exists>err. post = [error_line err])) \<and>
         registry (fst (main w g)) = run_collectors w g \<and>
         mux (fst (main w g)) = mux (listening_state w g)"
proof -
  from main_cases[of w g] assms
  have "main w g = ListenAndServe w (main_logger (load_config w)) (WebAddr (load_config w))
         (listening_state w g)"
    by (auto simp: token_panic_def all_accepted_iff length_run_collectors)
  then show ?thesis
    by (auto simp: ListenAndServe_main_logger emit_def listening_state_def Let_def
        split: serve_result.splits option.splits)
qed

lemma not_listen_listening_state: "\<forall>e\<in>set (trace (listening_state w g)). \<not> is_listen e"
  using not_listen_registered[of w g]
  by (auto simp: listening_state_def Let_def listening_line_def)

lemma register_calls_listening_state:
  "register_calls (trace (listening_state w g)) = run_collectors w g"
  by (simp add: listening_state_def Let_def listening_line_def register_calls_append
      register_calls_registered)

lemma main_listen_call:
  assumes "trace (fst (main w g)) = pre @ CallListenAndServe addr # post"
  shows "DigitalOceanToken (load_config w) \<noteq> [] \<and> all_accepted w g \<and> handlers_accepted w \<and>
         pre = trace (listening_state w g) \<and> addr = WebAddr (load_config w) \<and>
         (post = [] \<or> (\<exists>err. post = [error_line err])) \<and>
         main w g = ListenAndServe w (main_logger (load_config w)) (WebAddr (load_config w))
           (listening_state w g)"
proof -
  consider
    (tok) "main w g = (initial_state w, token_panic)"
  | (reg) k err where "k < 10" "main w g =
          (\<lparr>trace = starting_line g # map CallMustRegister (take (Suc k) (run_collectors w g)),
            registry = take k (run_collectors w g), mux = library_patterns w\<rparr>,
           Panic (PanicRegister (run_collectors w g ! k) err))"
  | (hnd) hs m where "main w g =
          (\<lparr>trace = registered_trace w g @ hs, registry = run_collectors w g, mux = m\<rparr>,
           Panic (PanicString (handler_panic w)))" "\<forall>e\<in>set hs. \<not> is_listen e"
  | (ok) "DigitalOceanToken (load_config w) \<noteq> []" "all_accepted w g" "handlers_accepted w"
     "main w g = ListenAndServe w (main_logger (load_config w)) (WebAddr (load_config w))
         (listening_state w g)"
    using main_cases[of w g] by blast
  then show ?thesis
  proof cases
    case tok
    with assms show ?thesis by (simp add: initial_state_def)
  next
    case reg
    have "\<forall>e\<in>set (starting_line g # map CallMustRegister (take (Suc k) (run_collectors w g))). \<not> is_listen e"
      by (auto simp: starting_line_def)
    from no_listen_no_split[OF this] reg assms show ?thesis by simp
  next
    case hnd
    have "\<forall>e\<in>set (registered_trace w g @ hs). \<not> is_listen e"
      using not_listen_registered[of w g] hnd(2) by auto
    from no_listen_no_split[OF this] hnd(1) assms show ?thesis by simp
  next
    case ok
    from main_listening[OF ok(1-3)] obtain post' where
      p: "trace (fst (main w g)) =
           trace (listening_state w g) @ CallListenAndServe (WebAddr (load_config w)) # post'"
         "post' = [] \<or> (\<exists>err. post' = [error_line err])"
      by blast
    have nl: "\<forall>e\<in>set post'. \<not> is_listen e"
      using p(2) by (auto simp: error_line_def)
    from listen_split_unique[OF _ not_listen_listening_state nl, of w g "WebAddr (load_config w)" pre addr post]
      p(1) assms
    have "pre = trace (listening_state w g) \<and> addr = WebAddr (load_config w) \<and> post = post'"
      by simp
    with ok p(2) show ?thesis by simp
  qed
qed

lemma listening_split:
  "listening w g \<longleftrightarrow> (\<exists>pre addr post. trace (fst (main w g)) = pre @ CallListenAndServe addr # post)"
proof
  assume "listening w g"
  then obtain e where e: "e \<in> set (trace (fst (main w g)))" "is_listen e"
    by (auto simp: listening_def list_ex_iff)
  from e(2) obtain addr where "e = CallListenAndServe addr" by (cases e) simp_all
  with split_list[OF e(1)] show "\<exists>pre addr post. trace (fst (main w g)) = pre @ CallListenAndServe addr # post"
    by blast
next
  assume "\<exists>pre addr post. trace (fst (main w g)) = pre @ CallListenAndServe addr # post"
  then show "listening w g" by (auto simp: listening_def list_ex_iff)
qed

lemma listening_iff:
  "listening w g \<longleftrightarrow>
     DigitalOceanToken (load_config w) \<noteq> [] \<and> all_accepted w g \<and> handlers_accepted w"
proof
  assume "listening w g"
  then obtain pre addr post where "trace (fst (main w g)) = pre @ CallListenAndServe addr # post"
    unfolding listening_split by blast
  from main_listen_call[OF this]
  show "DigitalOceanToken (load_config w) \<noteq> [] \<and> all_accepted w g \<and> handlers_accepted w"
    by simp
next
  assume a: "DigitalOceanToken (load_config w) \<noteq> [] \<and> all_accepted w g \<and> handlers_accepted w"
  then have "\<exists>post. trace (fst (main w g)) =
           trace (listening_state w g) @ CallListenAndServe (WebAddr (load_config w)) # post"
    using main_listening[of w g] by blast
  then show "listening w g" unfolding listening_split by blast
qed

lemma listening_main:
  assumes "listening w g"
  shows "main w g = ListenAndServe w (main_logger (load_config w)) (WebAddr (load_config w))
           (listening_state w g)"
    and "registry (fst (main w g)) = run_collectors w g"
    and "mux (fst (main w g)) =
           library_patterns w @
           [(WebPath (load_config w), promhttp_Handler), (''/'', HandlerFunc (load_config w))]"
proof -
  from assms obtain pre addr post where t: "trace (fst (main w g)) = pre @ CallListenAndServe addr # post"
    unfolding listening_split by blast
  from main_listen_call[OF t]
  show "main w g = ListenAndServe w (main_logger (load_config w)) (WebAddr (load_config w))
           (listening_state w g)" by simp
  from assms have a: "DigitalOceanToken (load_config w) \<noteq> []" "all_accepted w g"
     "handlers_accepted w"
    by (simp_all add: listening_iff)
  from main_listening[OF a]
  show "registry (fst (main w g)) = run_collectors w g"
    and "mux (fst (main w g)) =
           library_patterns w @
           [(WebPath (load_config w), promhttp_Handler), (''/'', HandlerFunc (load_config w))]"
    by (auto simp: listening_state_def Let_def)
qed

lemma not_listening_panics:
  "\<not> listening w g \<Longrightarrow> \<exists>pv. snd (main w g) = Panic pv"
  using main_cases[of w g] by (auto simp: listening_iff token_panic_def)

lemma registry_prefix:
  "\<exists>k. registry (fst (main w g)) = take k (run_collectors w g)"
proof (cases "listening w g")
  case True
  from listening_main(2)[OF this] show ?thesis
    by (intro exI[of _ "length (run_collectors w g)"]) simp
next
  case False
  with main_cases[of w g] consider
    "registry (fst (main w g)) = []" | k where "registry (fst (main w g)) = take k (run_collectors w g)"
    | "registry (fst (main w g)) = run_collectors w g"
    by (auto simp: listening_iff initial_state_def)
  then show ?thesis
  proof cases
    case 1
    then show ?thesis by (intro exI[of _ 0]) simp
  next
    case 2
    then show ?thesis by blast
  next
    case 3
    then show ?thesis by (intro exI[of _ "length (run_collectors w g)"]) simp
  qed
qed

lemma listening_register_calls:
  assumes "listening w g"
  shows "register_calls (trace (fst (main w g))) = run_collectors w g"
proof -
  from assms obtain pre addr post where t: "trace (fst (main w g)) = pre @ CallListenAndServe addr # post"
    unfolding listening_split by blast
  from main_listen_call[OF t] have "pre = trace (listening_state w g)"
    "post = [] \<or> (\<exists>err. post = [error_line err])" by simp_all
  then show ?thesis
    by (auto simp: t register_calls_append register_calls_listening_state error_line_def)
qed

lemma register_calls_prefix:
  "\<exists>k. register_calls (trace (fst (main w g))) = take k (run_collectors w g)"
proof (cases "listening w g")
  case True
  from listening_register_calls[OF this] show ?thesis
    by (intro exI[of _ "length (run_collectors w g)"]) simp
next
  case False
  with main_cases[of w g] consider
    "trace (fst (main w g)) = []"
    | k where "trace (fst (main w g)) =
        starting_line g # map CallMustRegister (take (Suc k) (run_collectors w g))"
    | xs where "trace (fst (main w g)) = registered_trace w g @ xs" "register_calls xs = []"
    by (auto simp: listening_iff initial_state_def)
  then show ?thesis
  proof cases
    case 1
    then show ?thesis by (intro exI[of _ 0]) simp
  next
    case 2
    then show ?thesis by (intro exI[of _ "Suc k"]) (simp add: starting_line_def register_calls_map)
  next
    case 3
    then show ?thesis
      by (intro exI[of _ "length (run_collectors w g)"])
         (simp add: register_calls_append register_calls_registered)
  qed
qed

lemma count_list_take: "count_list (take k xs) x \<le> count_list xs x"
proof -
  have "count_list xs x = count_list (take k xs) x + count_list (drop k xs) x"
    by (metis append_take_drop_id count_list_append)
  then show ?thesis by simp
qed

lemma resources_of_run:
  "map resource_of (run_collectors w g) =
     [account, domain, droplet, exporter_self_stats, floating_IP, image, key, load_balancer,
      snapshot, volume]"
  by (simp add: run_collectors_def main_collectors_def Let_def)

lemma count_resources: "count_list (map resource_of (run_collectors w g)) rt = 1"
  unfolding resources_of_run by (cases rt) simp_all

lemma run_collectors_cases:
  assumes "col \<in> set (run_collectors w g)"
  shows "(col = NewExporterCollector (main_logger (load_config w)) (Version g) (Revision g)
             (BuildDate g) (GoVersion g) (StartTime g) \<and> resource_of col = exporter_self_stats)
       \<or> (resource_of col \<noteq> exporter_self_stats \<and>
           client_of col = Some (NewClient (load_config w)) \<and>
           timeout_of col = Some (main_timeout (load_config w)))"
  using assms by (auto simp: run_collectors_def main_collectors_def Let_def)

lemma register_calls_subset:
  "set (register_calls (trace (fst (main w g)))) \<subseteq> set (run_collectors w g)"
  using register_calls_prefix[of w g] by (auto dest: in_set_takeD)

lemma sint_times_Millisecond:
  fixes t :: "64 word"
  assumes "- 9223372036854 \<le> sint t" "sint t \<le> 9223372036854"
  shows "sint (t * Millisecond) = sint t * 1000000"
proof -
  have m: "sint (1000000 :: 64 word) = 1000000" by simp
  have "sint (t * 1000000) = signed_take_bit 63 (sint t * sint (1000000 :: 64 word))"
    by (simp add: sint_word_ariths)
  also have "\<dots> = signed_take_bit 63 (sint t * 1000000)" by (simp only: m)
  also have "\<dots> = sint t * 1000000"
    using assms by (intro signed_take_bit_int_eq_self) simp_all
  finally show ?thesis by (simp add: Millisecond_def)
qed

lemma defaults_unset:
  "(env_HTTP_TIMEOUT (environment w) = None \<longrightarrow> HTTPTimeout (load_config w) = 5000) \<and>
   (env_WEB_ADDR (environment w) = None \<longrightarrow> WebAddr (load_config w) = '':9212'') \<and>
   (env_WEB_PATH (environment w) = None \<longrightarrow> WebPath (load_config w) = ''/metrics'')"
  by (simp add: load_config_def MustParse_def default_Config_def)

lemma example_load_config:
  "load_config (example_world token_environment) =
     \<lparr>Debug = False, DigitalOceanToken = ''dop_v1_0123'', HTTPTimeout = 5000,
      WebAddr = '':9212'', WebPath = ''/metrics''\<rparr>"
  by (simp add: load_config_def MustParse_def example_world_def no_environment_def
        token_environment_def default_Config_def)

lemma example_all_accepted: "all_accepted (example_world e) g"
  by (simp add: all_accepted_iff example_world_def)

lemma example_handlers_accepted: "handlers_accepted (example_world token_environment)"
  by (simp add: handlers_accepted_def example_load_config) (simp add: example_world_def)

lemma example_listening: "listening (example_world token_environment) g"
  by (simp add: listening_iff example_all_accepted example_load_config example_handlers_accepted)

lemma example_main:
  "main (example_world token_environment) g =
     (emit (error_line ''bind: address already in use'')
        (emit (CallListenAndServe '':9212'') (listening_state (example_world token_environment) g)),
      Exit 1)"
  by (simp add: listening_main(1)[OF example_listening] ListenAndServe_main_logger
      example_load_config)
     (simp add: example_world_def)

lemma collides_sym: "collides D a b \<longleftrightarrow> collides D b a"
  by (auto simp: collides_def list_ex_iff)

lemma accepted_no_collision:
  assumes "Register_error w = spec_Register_error D" "all_accepted w g"
    "i < j" "j < 10"
  shows "\<not> collides D (run_collectors w g ! i) (run_collectors w g ! j)"
proof -
  let ?cs = "run_collectors w g"
  from assms(2,4) have "Register_error w (take j ?cs) (?cs ! j) = None"
    by (simp add: all_accepted_iff length_run_collectors)
  then have "\<not> list_ex (collides D (?cs ! j)) (take j ?cs)"
    by (simp add: assms(1) spec_Register_error_def split: if_splits)
  moreover have "?cs ! i \<in> set (take j ?cs)"
    using assms(3,4) by (auto simp: in_set_conv_nth length_run_collectors intro!: exI[of _ i])
  ultimately have "\<not> collides D (?cs ! j) (?cs ! i)"
    by (auto simp: list_ex_iff)
  then show ?thesis by (simp add: collides_sym)
qed

lemma ten_registered_accepted:
  assumes "length (registry (fst (main w g))) = 10"
  shows "DigitalOceanToken (load_config w) \<noteq> [] \<and> all_accepted w g \<and>
         registry (fst (main w g)) = run_collectors w g"
proof (cases "listening w g")
  case True
  with listening_main(2)[OF True] show ?thesis by (simp add: listening_iff)
next
  case False
  with main_cases[of w g] consider
      "registry (fst (main w g)) = []"
    | k where "k < 10" "registry (fst (main w g)) = take k (run_collectors w g)"
    | "DigitalOceanToken (load_config w) \<noteq> []" "all_accepted w g"
      "registry (fst (main w g)) = run_collectors w g"
    by (auto simp: listening_iff initial_state_def)
  then show ?thesis
  proof cases
    case 1
    with assms show ?thesis by simp
  next
    case 2
    with assms show ?thesis by (simp add: length_run_collectors)
  next
    case 3
    then show ?thesis by simp
  qed
qed

lemma spec_world_load_config:
  "load_config (spec_world D token_environment) =
     \<lparr>Debug = False, DigitalOceanToken = ''dop_v1_0123'', HTTPTimeout = 5000,
      WebAddr = '':9212'', WebPath = ''/metrics''\<rparr>"
  by (simp add: load_config_def MustParse_def spec_world_def no_environment_def
        token_environment_def default_Config_def)

lemma spec_world_handlers_accepted: "handlers_accepted (spec_world D token_environment)"
  by (simp add: handlers_accepted_def spec_world_load_config) (simp add: spec_world_def)

lemma example_Describe_accepted:
  "all_accepted (spec_world example_Describe token_environment) g"
  unfolding all_accepted_iff length_run_collectors
  by (simp add: eval_nat_numeral All_less_Suc run_collectors_def main_collectors_def Let_def
      spec_world_def spec_Register_error_def collides_def)

section \<open>What the listener answers\<close>

lemma longest_entry_in: "longest_entry xs = Some e \<Longrightarrow> e \<in> set xs"
  by (induction xs arbitrary: e) (auto split: option.splits if_splits)

lemma longest_entry_nonempty: "xs \<noteq> [] \<Longrightarrow> longest_entry xs \<noteq> None"
  by (cases xs) (auto split: option.splits)

lemma other_pattern_serves_iff:
  "other_pattern_serves m p \<longleftrightarrow> (\<exists>e\<in>set m. fst e \<noteq> ''/'' \<and> serves_pattern (fst e) p)"
  by (simp add: other_pattern_serves_def list_ex_iff)

lemma other_pattern_matches_iff:
  "other_pattern_matches m r \<longleftrightarrow> (\<exists>e\<in>set m. fst e \<noteq> ''/'' \<and> request_matches (fst e) r)"
  by (simp add: other_pattern_matches_def list_ex_iff)

lemma mux_match_root_or_none:
  assumes uniq: "\<forall>h. (''/'', h) \<in> set m \<longrightarrow> h = L"
    and other: "\<not> other_pattern_serves m s"
  shows "mux_match m s = Some L \<or> mux_match m s = None"
proof (cases "map_of m s")
  case (Some h)
  then have in_m: "(s, h) \<in> set m" by (rule map_of_SomeD)
  have "serves_pattern s s" by (simp add: serves_pattern_def)
  with other in_m have "s = ''/''" by (force simp: other_pattern_serves_iff)
  with in_m uniq have "h = L" by blast
  with Some show ?thesis by (simp add: mux_match_def)
next
  case None
  let ?F = "filter (\<lambda>e. subtree_pattern (fst e) \<and> prefix (fst e) s) m"
  show ?thesis
  proof (cases "longest_entry ?F")
    case None': None
    with None show ?thesis by (simp add: mux_match_def)
  next
    case (Some e)
    from longest_entry_in[OF this] have e: "e \<in> set m" "subtree_pattern (fst e)" "prefix (fst e) s"
      by simp_all
    then have "serves_pattern (fst e) s" by (simp add: serves_pattern_def)
    with other e(1) have "fst e = ''/''" by (force simp: other_pattern_serves_iff)
    with e(1) have "(''/'', snd e) \<in> set m" by (metis prod.collapse)
    with uniq have "snd e = L" by blast
    with None Some show ?thesis by (simp add: mux_match_def)
  qed
qed

lemma mux_match_found:
  assumes "(''/'', L) \<in> set m" "prefix ''/'' p"
  shows "mux_match m p \<noteq> None"
proof (cases "map_of m p")
  case (Some h)
  then show ?thesis by (simp add: mux_match_def)
next
  case None
  have "(''/'', L) \<in> set (filter (\<lambda>e. subtree_pattern (fst e) \<and> prefix (fst e) p) m)"
    using assms by (simp add: subtree_pattern_def)
  then have "filter (\<lambda>e. subtree_pattern (fst e) \<and> prefix (fst e) p) m \<noteq> []"
    by (metis empty_iff list.set(1))
  from longest_entry_nonempty[OF this] None show ?thesis
    by (auto simp: mux_match_def)
qed

lemma mux_handler_found:
  assumes "(''/'', L) \<in> set m" "prefix ''/'' p"
  shows "mux_handler m host p \<noteq> None"
  using mux_match_found[OF assms] by (auto simp: mux_handler_def split: option.splits)

lemma mux_handler_root_only:
  assumes root: "(''/'', L) \<in> set m" and uniq: "\<forall>h. (''/'', h) \<in> set m \<longrightarrow> h = L"
    and p: "prefix ''/'' p"
    and o1: "\<not> other_pattern_serves m p" and o2: "\<not> other_pattern_serves m (host @ p)"
  shows "mux_handler m host p = Some L"
proof -
  from mux_match_root_or_none[OF uniq o1] mux_match_found[OF root p]
  have a: "mux_match m p = Some L" by blast
  from mux_match_root_or_none[OF uniq o2] a show ?thesis
    by (auto simp: mux_handler_def)
qed

lemma answer_found_not_404: "found \<noteq> None \<Longrightarrow> answer found r \<noteq> NotFound"
  by (cases found; cases "the found") (auto simp: answer_def)

lemma no_redirect:
  assumes p: "prefix ''/'' p"
    and o: "\<forall>e\<in>set m. fst e \<noteq> ''/'' \<longrightarrow> p @ ''/'' \<noteq> fst e \<and> (host @ p) @ ''/'' \<noteq> fst e"
  shows "\<not> shouldRedirect m host p"
proof
  assume s: "shouldRedirect m host p"
  then have "map_of m (p @ ''/'') \<noteq> None \<or> map_of m (host @ p @ ''/'') \<noteq> None"
    by (auto simp: shouldRedirect_def split: if_splits)
  then obtain h where "(p @ ''/'', h) \<in> set m \<or> (host @ p @ ''/'', h) \<in> set m"
    by (auto dest: map_of_SomeD)
  then show False
  proof
    assume a: "(p @ ''/'', h) \<in> set m"
    from p have "p @ ''/'' \<noteq> ''/''" by (cases p) auto
    with a o show False by force
  next
    assume a: "(host @ p @ ''/'', h) \<in> set m"
    from p have "host @ p @ ''/'' \<noteq> ''/''" by (cases p; cases host) auto
    with a o show False by force
  qed
qed

lemma cleanPath_rooted: "prefix ''/'' (cleanPath p)"
  by (auto simp: cleanPath_def path_Clean_def Let_def)

lemma canonical_rooted: "cleanPath p = p \<Longrightarrow> prefix ''/'' p"
  using cleanPath_rooted[of p] by simp

lemma cleanPath_root: "cleanPath ''/'' = ''/''"
  by (simp add: cleanPath_def path_Clean_def clean_element_def)

text \<open>The mux of a run that has reached the listener.\<close>

lemma listening_mux_root:
  assumes "listening w g"
  shows "(''/'', HandlerFunc (load_config w)) \<in> set (mux (fst (main w g)))"
    and "\<forall>h. (''/'', h) \<in> set (mux (fst (main w g))) \<longrightarrow> h = HandlerFunc (load_config w)"
proof -
  from assms have "handlers_accepted w" by (simp add: listening_iff)
  then have a: "WebPath (load_config w) \<noteq> ''/''" "''/'' \<notin> fst ` set (library_patterns w)"
    by (simp_all add: handlers_accepted_def Let_def)
  show "(''/'', HandlerFunc (load_config w)) \<in> set (mux (fst (main w g)))"
    by (simp add: listening_main(3)[OF assms])
  show "\<forall>h. (''/'', h) \<in> set (mux (fst (main w g))) \<longrightarrow> h = HandlerFunc (load_config w)"
    using a by (force simp: listening_main(3)[OF assms])
qed

lemma served_serving:
  "serving w g \<Longrightarrow> served_response w g r = Some (mux_ServeHTTP (mux (fst (main w g))) r)"
  by (simp add: served_response_def)

lemma serving_listening: "serving w g \<Longrightarrow> listening w g"
  by (simp add: serving_def)

lemma dispatch_landing:
  assumes l: "listening w g" and p: "prefix ''/'' (Path r)"
    and o: "\<not> other_pattern_matches (mux (fst (main w g))) r"
    and hd: "Method r \<noteq> ''HEAD''"
  shows "\<not> shouldRedirect (mux (fst (main w g))) (Host r) (Path r)"
    and "answer (mux_handler (mux (fst (main w g))) (Host r) (Path r)) r =
           Written 200 (landing_page (load_config w))"
proof -
  let ?m = "mux (fst (main w g))"
  from o have o': "\<forall>e\<in>set ?m. fst e \<noteq> ''/'' \<longrightarrow>
      \<not> pattern_matches (fst e) (Path r) \<and> \<not> pattern_matches (fst e) (Host r @ Path r)"
    by (auto simp: other_pattern_matches_iff request_matches_def)
  then have "\<forall>e\<in>set ?m. fst e \<noteq> ''/'' \<longrightarrow>
      Path r @ ''/'' \<noteq> fst e \<and> (Host r @ Path r) @ ''/'' \<noteq> fst e"
    by (auto simp: pattern_matches_def)
  from no_redirect[OF p this] show "\<not> shouldRedirect ?m (Host r) (Path r)" .
  from o' have s1: "\<not> other_pattern_serves ?m (Path r)"
    and s2: "\<not> other_pattern_serves ?m (Host r @ Path r)"
    by (auto simp: other_pattern_serves_iff pattern_matches_def)
  from mux_handler_root_only[OF listening_mux_root[OF l] p s1 s2]
  show "answer (mux_handler ?m (Host r) (Path r)) r = Written 200 (landing_page (load_config w))"
    using hd by (simp add: answer_def)
qed

lemma served_canonical:
  assumes s: "serving w g" and c: "cleanPath (Path r) = Path r"
    and o: "\<not> other_pattern_matches (mux (fst (main w g))) r"
    and hd: "Method r \<noteq> ''HEAD''"
  shows "served_response w g r = Some (Written 200 (landing_page (load_config w)))"
proof -
  from canonical_rooted[OF c] have p: "prefix ''/'' (Path r)" .
  then have star: "Path r \<noteq> ''*''" by auto
  note d = dispatch_landing[OF serving_listening[OF s] p o hd]
  show ?thesis
    unfolding served_serving[OF s]
    by (simp add: mux_ServeHTTP_def star c d Let_def)
qed

lemma served_not_404:
  assumes s: "serving w g" and p: "prefix ''/'' (Path r)"
  shows "served_response w g r \<noteq> Some NotFound"
proof -
  let ?m = "mux (fst (main w g))"
  from p have star: "Path r \<noteq> ''*''" by auto
  from mux_handler_found[OF listening_mux_root(1)[OF serving_listening[OF s]] p]
  have "answer (mux_handler ?m (Host r) (Path r)) r \<noteq> NotFound"
    by (rule answer_found_not_404)
  then show ?thesis
    unfolding served_serving[OF s]
    by (simp add: mux_ServeHTTP_def star Let_def)
qed

lemma prefix_of_root: "prefix a ''/'' \<Longrightarrow> a = [] \<or> a = ''/''"
  by (cases a) auto

lemma root_not_served_by_others: "\<not> other_pattern_serves m ''/''"
  by (auto simp: other_pattern_serves_iff serves_pattern_def subtree_pattern_def
      dest: prefix_of_root)

lemma served_root:
  assumes s: "serving w g" and p: "Path r = ''/''"
    and o: "\<not> other_pattern_serves (mux (fst (main w g))) (Host r @ ''/'')"
    and hd: "Method r \<noteq> ''HEAD''"
  shows "served_response w g r = Some (Written 200 (landing_page (load_config w)))"
proof -
  let ?m = "mux (fst (main w g))"
  note root = listening_mux_root[OF serving_listening[OF s]]
  have "map_of ?m ''/'' \<noteq> None"
    using root(1) by (metis map_of_eq_None_iff fst_conv image_eqI)
  then have nr: "\<not> shouldRedirect ?m (Host r) ''/''"
    by (simp add: shouldRedirect_def)
  from mux_handler_root_only[OF root _ root_not_served_by_others o]
  have h: "mux_handler ?m (Host r) ''/'' = Some (HandlerFunc (load_config w))"
    by simp
  show ?thesis
    unfolding served_serving[OF s]
    using hd by (simp add: mux_ServeHTTP_def p cleanPath_root nr h answer_def Let_def)
qed

lemma decode_literal: "list_all literal_char v \<Longrightarrow> decode_value v = Some v"
  by (induction v) (auto simp: literal_char_def)

lemma takeWhile_until_quote:
  "CHR 0x22 \<notin> set wp \<Longrightarrow> takeWhile (\<lambda>ch. ch \<noteq> CHR 0x22) (wp @ CHR 0x22 # rest) = wp"
  by (induction wp) auto

lemma hyperlink_target_landing_page:
  \<open>hyperlink_target (landing_page c) =
     decode_value (takeWhile (\<lambda>ch. ch \<noteq> CHR 0x22) (WebPath c @ ''">Metrics</a></p>'' @
       [CHR 0x0A, CHR 0x09, CHR 0x09, CHR 0x09] @ ''</body>'' @
       [CHR 0x0A, CHR 0x09, CHR 0x09, CHR 0x09] @ ''</html>''))\<close>
  by (simp add: landing_page_def)

lemma hyperlink_target_literal:
  assumes "list_all literal_char (WebPath c)"
  shows "hyperlink_target (landing_page c) = Some (WebPath c)"
proof -
  from assms have "CHR 0x22 \<notin> set (WebPath c)"
    by (auto simp: list_all_iff literal_char_def)
  then show ?thesis
    by (simp add: hyperlink_target_landing_page takeWhile_until_quote decode_literal[OF assms])
qed

lemma serving_world_config:
  "load_config (serving_world (token_environment\<lparr>env_WEB_PATH := Some wp\<rparr>)) =
     \<lparr>Debug = False, DigitalOceanToken = ''dop_v1_0123'', HTTPTimeout = 5000,
      WebAddr = '':9212'', WebPath = wp\<rparr>"
  by (simp add: load_config_def MustParse_def serving_world_def example_world_def
        no_environment_def token_environment_def default_Config_def)

lemma serving_world_default_config:
  "load_config (serving_world token_environment) =
     \<lparr>Debug = False, DigitalOceanToken = ''dop_v1_0123'', HTTPTimeout = 5000,
      WebAddr = '':9212'', WebPath = ''/metrics''\<rparr>"
  by (simp add: load_config_def MustParse_def serving_world_def example_world_def
        no_environment_def token_environment_def default_Config_def)

lemma serving_world_patterns:
  "library_patterns (serving_world e) = [(''/debug/vars'', LibraryHandler ''expvar'')]"
  by (simp add: serving_world_def example_world_def)

lemma serving_world_accepted: "all_accepted (serving_world e) g"
  by (simp add: all_accepted_iff serving_world_def example_world_def)

lemma serving_world_serving:
  assumes "handlers_accepted (serving_world e)"
    "DigitalOceanToken (load_config (serving_world e)) \<noteq> []"
  shows "serving (serving_world e) g"
  using assms
  by (simp add: serving_def listening_iff serving_world_accepted)
     (simp add: serving_world_def)

lemma serving_path_world:
  assumes "wp \<noteq> []" "wp \<noteq> ''/''" "wp \<noteq> ''/debug/vars''"
  shows "serving (serving_world (token_environment\<lparr>env_WEB_PATH := Some wp\<rparr>)) g"
  using assms
  by (intro serving_world_serving)
     (simp_all add: handlers_accepted_def serving_world_config serving_world_patterns)

lemma serving_default_world: "serving (serving_world token_environment) g"
  by (intro serving_world_serving)
     (simp_all add: handlers_accepted_def serving_world_default_config serving_world_patterns)

lemma serving_mux:
  "serving w g \<Longrightarrow>
     mux (fst (main w g)) =
       library_patterns w @
       [(WebPath (load_config w), promhttp_Handler), (''/'', HandlerFunc (load_config w))]"
  by (rule listening_main(3)) (rule serving_listening)

lemma root_path_main:
  "snd (main root_path_world g) = Panic (PanicString ''http: multiple registrations for /'')"
proof -
  have c: "WebPath (load_config root_path_world) = ''/''"
    "DigitalOceanToken (load_config root_path_world) \<noteq> []"
    by (simp_all add: root_path_world_def serving_world_config)
  have l: "library_patterns root_path_world = [(''/debug/vars'', LibraryHandler ''expvar'')]"
    by (simp add: root_path_world_def serving_world_patterns)
  have na: "\<not> handlers_accepted root_path_world"
    by (simp add: handlers_accepted_def c)
  have acc: "all_accepted root_path_world g"
    by (simp add: root_path_world_def serving_world_accepted)
  have hp: "handler_panic root_path_world = ''http: multiple registrations for /''"
    by (simp add: handler_panic_def c l)
  from main_cases[of root_path_world g] c(2) na acc
  have "snd (main root_path_world g) = Panic (PanicString (handler_panic root_path_world))"
    by (auto simp: all_accepted_iff length_run_collectors)
  then show ?thesis by (simp add: hp)
qed

lemma listening_root_handler:
  assumes "listening w g"
  shows "map_of (mux (fst (main w g))) ''/'' = Some (HandlerFunc (load_config w))"
proof -
  note root = listening_mux_root[OF assms]
  from root(1) obtain h where h: "map_of (mux (fst (main w g))) ''/'' = Some h"
    by (metis map_of_eq_None_iff fst_conv image_eqI not_Some_eq)
  from map_of_SomeD[OF h] root(2) have "h = HandlerFunc (load_config w)" by blast
  with h show ?thesis by simp
qed

lemma landing_page_text:
  \<open>landing_page c =
     ''<html>'' @ [CHR 0x0A, CHR 0x09, CHR 0x09, CHR 0x09] @
     ''<head><title>DigitalOcean Exporter</title></head>'' @ [CHR 0x0A, CHR 0x09, CHR 0x09, CHR 0x09] @
     ''<body>'' @ [CHR 0x0A, CHR 0x09, CHR 0x09, CHR 0x09] @
     ''<h1>DigitalOcean Exporter</h1>'' @ [CHR 0x0A, CHR 0x09, CHR 0x09, CHR 0x09] @
     ''<p><a href="'' @ WebPath c @ ''">Metrics</a></p>'' @ [CHR 0x0A, CHR 0x09, CHR 0x09, CHR 0x09] @
     ''</body>'' @ [CHR 0x0A, CHR 0x09, CHR 0x09, CHR 0x09] @
     ''</html>''\<close>
  by (simp add: landing_page_def)

section \<open>Claims\<close>

text \<open>
  C1. If the token is empty after configuration loading, \<open>main\<close> panics at once: the
  run ends with the panic ``DigitalOcean Token is required'' (exit status 2), no call
  has been made, no collector is registered and the listener is never called. With a
  non-empty token the check passes and startup goes on: the run does not end with that
  panic, and its first two calls are the start-up log line and the first
  \<open>MustRegister\<close>.
\<close>

theorem token_required:
  "(DigitalOceanToken (load_config w) = [] \<longrightarrow>
      snd (main w g) = token_panic \<and> exit_status (snd (main w g)) = Some 2 \<and>
      trace (fst (main w g)) = [] \<and> registry (fst (main w g)) = [] \<and> \<not> listening w g)
 \<and> (DigitalOceanToken (load_config w) \<noteq> [] \<longrightarrow>
      snd (main w g) \<noteq> token_panic \<and>
      take 2 (trace (fst (main w g))) =
        [starting_line g,
         CallMustRegister
           (NewAccountCollector (main_logger (load_config w)) (NewClient (load_config w))
              (main_timeout (load_config w)))])"
proof (intro conjI impI)
  assume e: "DigitalOceanToken (load_config w) = []"
  with main_cases[of w g] have m: "main w g = (initial_state w, token_panic)" by blast
  show "snd (main w g) = token_panic" "exit_status (snd (main w g)) = Some 2"
    "trace (fst (main w g)) = []" "registry (fst (main w g)) = []" "\<not> listening w g"
    by (simp_all add: m token_panic_def initial_state_def listening_def)
next
  assume ne: "DigitalOceanToken (load_config w) \<noteq> []"
  let ?a = "NewAccountCollector (main_logger (load_config w)) (NewClient (load_config w))
              (main_timeout (load_config w))"
  obtain rest where cs: "run_collectors w g = ?a # rest"
    by (simp add: run_collectors_def main_collectors_def Let_def)
  have regtr: "take 2 (registered_trace w g) = [starting_line g, CallMustRegister ?a]"
    "length (registered_trace w g) = 11"
    using length_run_collectors[of w g] by (simp_all add: registered_trace_def cs)
  from main_cases[of w g] ne consider
      (reg) k err where "main w g =
          (\<lparr>trace = starting_line g # map CallMustRegister (take (Suc k) (run_collectors w g)),
            registry = take k (run_collectors w g), mux = library_patterns w\<rparr>,
           Panic (PanicRegister (run_collectors w g ! k) err))"
    | (hnd) hs m where "main w g =
          (\<lparr>trace = registered_trace w g @ hs, registry = run_collectors w g, mux = m\<rparr>,
           Panic (PanicString (handler_panic w)))"
    | (ok) "main w g = ListenAndServe w (main_logger (load_config w)) (WebAddr (load_config w))
         (listening_state w g)"
    by blast
  then show "snd (main w g) \<noteq> token_panic"
  proof cases
    case reg
    then show ?thesis by (simp add: token_panic_def)
  next
    case hnd
    then show ?thesis by (auto simp: token_panic_def handler_panic_def Let_def)
  next
    case ok
    then show ?thesis
      by (simp add: token_panic_def ListenAndServe_main_logger
          split: serve_result.splits option.splits)
  qed
  from main_cases[of w g] ne consider
      (reg) k err where "main w g =
          (\<lparr>trace = starting_line g # map CallMustRegister (take (Suc k) (run_collectors w g)),
            registry = take k (run_collectors w g), mux = library_patterns w\<rparr>,
           Panic (PanicRegister (run_collectors w g ! k) err))"
    | (hnd) hs m where "main w g =
          (\<lparr>trace = registered_trace w g @ hs, registry = run_collectors w g, mux = m\<rparr>,
           Panic (PanicString (handler_panic w)))"
    | (ok) "main w g = ListenAndServe w (main_logger (load_config w)) (WebAddr (load_config w))
         (listening_state w g)"
    by blast
  then show "take 2 (trace (fst (main w g))) = [starting_line g, CallMustRegister ?a]"
  proof cases
    case reg
    then show ?thesis by (simp add: cs)
  next
    case hnd
    then show ?thesis by (simp add: regtr)
  next
    case ok
    then show ?thesis
      using regtr
      by (simp add: ListenAndServe_main_logger emit_def listening_state_def Let_def
          split: serve_result.splits option.splits)
  qed
qed

theorem token_required_witness:
  "DigitalOceanToken (load_config (example_world no_environment)) = [] \<and>
   snd (main (example_world no_environment) example_globals) = token_panic \<and>
   \<not> listening (example_world no_environment) example_globals \<and>
   DigitalOceanToken (load_config (example_world token_environment)) \<noteq> [] \<and>
   snd (main (example_world token_environment) example_globals) \<noteq> token_panic"
proof -
  have a: "DigitalOceanToken (load_config (example_world no_environment)) = []"
    by (simp add: load_config_def MustParse_def example_world_def no_environment_def
        default_Config_def)
  have b: "DigitalOceanToken (load_config (example_world token_environment)) \<noteq> []"
    by (simp add: load_config_def MustParse_def example_world_def no_environment_def
        token_environment_def default_Config_def)
  from a b token_required[of "example_world no_environment" example_globals]
    token_required[of "example_world token_environment" example_globals]
  show ?thesis by blast
qed

text \<open>
  C2. Wherever the call of \<open>ListenAndServe\<close> stands in the trace of a run, the ten
  \<open>MustRegister\<close> calls all stand before it, in source order, and none stands after
  it; there is no second listener call; and the registry at the end of the run is
  what those ten calls left. So the registry's collector set is written before the
  listener starts and never while it serves.
\<close>

theorem registrations_precede_listener:
  "trace (fst (main w g)) = pre @ CallListenAndServe addr # post \<longrightarrow>
     register_calls pre = run_collectors w g \<and> length (register_calls pre) = 10 \<and>
     register_calls post = [] \<and> \<not> list_ex is_listen pre \<and> \<not> list_ex is_listen post \<and>
     registry (fst (main w g)) = register_calls pre"
proof
  assume a: "trace (fst (main w g)) = pre @ CallListenAndServe addr # post"
  from main_listen_call[OF a]
  have pre: "pre = trace (listening_state w g)"
    and post: "post = [] \<or> (\<exists>err. post = [error_line err])"
    and acc: "DigitalOceanToken (load_config w) \<noteq> []" "all_accepted w g"
      "handlers_accepted w"
    by simp_all
  from main_listening[OF acc] have reg: "registry (fst (main w g)) = run_collectors w g"
    by blast
  have "register_calls post = []" "\<not> list_ex is_listen post"
    using post by (auto simp: error_line_def)
  moreover have "\<not> list_ex is_listen pre"
    using not_listen_listening_state[of w g] by (simp add: pre list_ex_iff)
  ultimately show "register_calls pre = run_collectors w g \<and> length (register_calls pre) = 10 \<and>
     register_calls post = [] \<and> \<not> list_ex is_listen pre \<and> \<not> list_ex is_listen post \<and>
     registry (fst (main w g)) = register_calls pre"
    by (simp add: pre register_calls_listening_state length_run_collectors reg)
qed

theorem registrations_precede_listener_witness:
  "trace (fst (main (example_world token_environment) example_globals)) =
     trace (listening_state (example_world token_environment) example_globals) @
     CallListenAndServe '':9212'' # [error_line ''bind: address already in use''] \<and>
   length (register_calls (trace (listening_state (example_world token_environment) example_globals))) = 10 \<and>
   register_calls [error_line ''bind: address already in use''] = []"
proof -
  have t: "trace (fst (main (example_world token_environment) example_globals)) =
     trace (listening_state (example_world token_environment) example_globals) @
     CallListenAndServe '':9212'' # [error_line ''bind: address already in use'']"
    by (simp add: example_main emit_def)
  from t registrations_precede_listener[of "example_world token_environment" example_globals
      "trace (listening_state (example_world token_environment) example_globals)" "'':9212''"
      "[error_line ''bind: address already in use'']"]
  show ?thesis by blast
qed

text \<open>
  C3. With the registry of the specification, for any declarations \<open>D\<close> of the
  collectors: if two of the ten collectors that \<open>main\<close> constructs declare a common
  descriptor (and the token is present, so that registration is reached), a
  \<open>MustRegister\<close> call panics, the process ends with status 2, fewer than ten
  collectors are registered and the listener is never called. And whenever ten
  collectors are registered, they are the ten of \<open>main\<close> and no two of them declare a
  common descriptor.
\<close>

theorem colliding_registration_is_fatal:
  "Register_error w = spec_Register_error D \<longrightarrow>
     (DigitalOceanToken (load_config w) \<noteq> [] \<and> i < j \<and> j < 10 \<and>
      collides D (run_collectors w g ! i) (run_collectors w g ! j) \<longrightarrow>
        (\<exists>col err. snd (main w g) = Panic (PanicRegister col err)) \<and>
        exit_status (snd (main w g)) = Some 2 \<and> \<not> listening w g \<and>
        length (registry (fst (main w g))) < 10) \<and>
     (length (registry (fst (main w g))) = 10 \<longrightarrow>
        registry (fst (main w g)) = run_collectors w g \<and>
        (\<forall>i j. i < j \<and> j < 10 \<longrightarrow>
           \<not> collides D (registry (fst (main w g)) ! i) (registry (fst (main w g)) ! j)))"
proof (intro impI conjI)
  assume spec: "Register_error w = spec_Register_error D"
  {
    assume a: "DigitalOceanToken (load_config w) \<noteq> [] \<and> i < j \<and> j < 10 \<and>
      collides D (run_collectors w g ! i) (run_collectors w g ! j)"
    then have nacc: "\<not> all_accepted w g"
      using accepted_no_collision[OF spec, of g i j] by blast
    with a main_cases[of w g] obtain k err where k: "k < 10" "main w g =
          (\<lparr>trace = starting_line g # map CallMustRegister (take (Suc k) (run_collectors w g)),
            registry = take k (run_collectors w g), mux = library_patterns w\<rparr>,
           Panic (PanicRegister (run_collectors w g ! k) err))"
      by blast
    show "\<exists>col err. snd (main w g) = Panic (PanicRegister col err)"
      "exit_status (snd (main w g)) = Some 2"
      "length (registry (fst (main w g))) < 10"
      using k by (simp_all add: length_run_collectors)
    show "\<not> listening w g" using nacc by (simp add: listening_iff)
  }
  {
    assume t: "length (registry (fst (main w g))) = 10"
    from ten_registered_accepted[OF t]
    have acc: "all_accepted w g" and r: "registry (fst (main w g)) = run_collectors w g"
      by simp_all
    show "registry (fst (main w g)) = run_collectors w g" by (rule r)
    show "\<forall>i j. i < j \<and> j < 10 \<longrightarrow>
           \<not> collides D (registry (fst (main w g)) ! i) (registry (fst (main w g)) ! j)"
      using accepted_no_collision[OF spec acc] by (simp add: r)
  }
qed

theorem colliding_registration_is_fatal_witness:
  "Register_error (spec_world example_Describe token_environment) =
     spec_Register_error example_Describe \<and>
   length (registry (fst (main (spec_world example_Describe token_environment) example_globals))) = 10 \<and>
   \<not> collides example_Describe
       (registry (fst (main (spec_world example_Describe token_environment) example_globals)) ! 0)
       (registry (fst (main (spec_world example_Describe token_environment) example_globals)) ! 1) \<and>
   Register_error (spec_world clashing_Describe token_environment) =
     spec_Register_error clashing_Describe \<and>
   DigitalOceanToken (load_config (spec_world clashing_Describe token_environment)) \<noteq> [] \<and>
   collides clashing_Describe
       (run_collectors (spec_world clashing_Describe token_environment) example_globals ! 0)
       (run_collectors (spec_world clashing_Describe token_environment) example_globals ! 1) \<and>
   \<not> listening (spec_world clashing_Describe token_environment) example_globals \<and>
   exit_status (snd (main (spec_world clashing_Describe token_environment) example_globals)) = Some 2"
proof -
  let ?w1 = "spec_world example_Describe token_environment"
  let ?w2 = "spec_world clashing_Describe token_environment"
  have r1: "Register_error ?w1 = spec_Register_error example_Describe"
    and r2: "Register_error ?w2 = spec_Register_error clashing_Describe"
    by (simp_all add: spec_world_def)
  have "listening ?w1 example_globals"
    by (simp add: listening_iff example_Describe_accepted spec_world_load_config
        spec_world_handlers_accepted)
  from listening_main(2)[OF this]
  have ten: "length (registry (fst (main ?w1 example_globals))) = 10"
    by (simp add: length_run_collectors)
  have tok: "DigitalOceanToken (load_config ?w2) \<noteq> []"
    by (simp add: spec_world_load_config)
  have col: "collides clashing_Describe (run_collectors ?w2 example_globals ! 0)
       (run_collectors ?w2 example_globals ! 1)"
    by (simp add: collides_def clashing_Describe_def)
  have lt: "(0::nat) < 1" "(1::nat) < 10" by simp_all
  from colliding_registration_is_fatal[of ?w1 example_Describe 0 1 example_globals] r1 ten lt
  have a: "\<not> collides example_Describe (registry (fst (main ?w1 example_globals)) ! 0)
       (registry (fst (main ?w1 example_globals)) ! 1)"
    by blast
  from colliding_registration_is_fatal[of ?w2 clashing_Describe 0 1 example_globals] r2 tok col lt
  have b: "\<not> listening ?w2 example_globals \<and> exit_status (snd (main ?w2 example_globals)) = Some 2"
    by blast
  from r1 r2 ten tok col a b show ?thesis by blast
qed

text \<open>
  C4. No run registers (or tries to register) two collectors of one resource type. A
  run that reaches the listener has registered ten collectors, one for each \<open>MustRegister\<close>
  call, and for every one of the ten resource types exactly one of them.
\<close>

theorem one_collector_per_resource_type:
  "(\<forall>rt. count_list (map resource_of (registry (fst (main w g)))) rt \<le> 1) \<and>
   (\<forall>rt. count_list (map resource_of (register_calls (trace (fst (main w g))))) rt \<le> 1) \<and>
   (listening w g \<longrightarrow>
      length (registry (fst (main w g))) = 10 \<and>
      register_calls (trace (fst (main w g))) = registry (fst (main w g)) \<and>
      (\<forall>rt. count_list (map resource_of (registry (fst (main w g)))) rt = 1))"
proof (intro conjI allI impI)
  fix rt
  from registry_prefix[of w g] obtain k where "registry (fst (main w g)) = take k (run_collectors w g)"
    by blast
  then show "count_list (map resource_of (registry (fst (main w g)))) rt \<le> 1"
    using count_list_take[of k "map resource_of (run_collectors w g)" rt] count_resources[of w g rt]
    by (simp add: take_map)
next
  fix rt
  from register_calls_prefix[of w g] obtain k where
    "register_calls (trace (fst (main w g))) = take k (run_collectors w g)"
    by blast
  then show "count_list (map resource_of (register_calls (trace (fst (main w g))))) rt \<le> 1"
    using count_list_take[of k "map resource_of (run_collectors w g)" rt] count_resources[of w g rt]
    by (simp add: take_map)
next
  assume l: "listening w g"
  from listening_main(2)[OF l] show "length (registry (fst (main w g))) = 10"
    by (simp add: length_run_collectors)
  from l obtain pre addr post where t: "trace (fst (main w g)) = pre @ CallListenAndServe addr # post"
    unfolding listening_split by blast
  from main_listen_call[OF t] have "pre = trace (listening_state w g)"
    "post = [] \<or> (\<exists>err. post = [error_line err])" by simp_all
  then show "register_calls (trace (fst (main w g))) = registry (fst (main w g))"
    by (auto simp: t register_calls_append register_calls_listening_state error_line_def
        listening_main(2)[OF l])
  fix rt
  show "count_list (map resource_of (registry (fst (main w g)))) rt = 1"
    by (simp add: listening_main(2)[OF l] count_resources)
qed

theorem one_collector_per_resource_type_witness:
  "listening (example_world token_environment) example_globals \<and>
   length (registry (fst (main (example_world token_environment) example_globals))) = 10 \<and>
   count_list (map resource_of (registry (fst (main (example_world token_environment) example_globals))))
     exporter_self_stats = 1"
  using one_collector_per_resource_type[of "example_world token_environment" example_globals]
    example_listening[of example_globals]
  by blast

text \<open>
  C5, as stated, fails where the product overflows: \<open>time.Duration(c.HTTPTimeout) *
  time.Millisecond\<close> is a 64-bit multiplication. With \<open>HTTP_TIMEOUT=10000000000000\<close>
  the duration handed to the collectors is negative, not ten trillion milliseconds.
\<close>

theorem timeout_overflow_counterexample:
  "HTTPTimeout (load_config (example_world (token_environment\<lparr>env_HTTP_TIMEOUT := Some 10000000000000\<rparr>)))
     = 10000000000000 \<and>
   sint (main_timeout
      (load_config (example_world (token_environment\<lparr>env_HTTP_TIMEOUT := Some 10000000000000\<rparr>))))
     = - 8446744073709551616 \<and>
   sint (main_timeout
      (load_config (example_world (token_environment\<lparr>env_HTTP_TIMEOUT := Some 10000000000000\<rparr>))))
     \<noteq> sint (10000000000000 :: int64) * 1000000"
  by (simp add: load_config_def MustParse_def example_world_def token_environment_def
      no_environment_def default_Config_def main_timeout_def Millisecond_def)

text \<open>
  C5, amended. With the variables unset the configuration has timeout 5000, listen
  address \<open>:9212\<close> and scrape path \<open>/metrics\<close>. For a configured timeout between
  -9223372036854 and 9223372036854, the range in which the product fits a
  \<open>time.Duration\<close>, the duration is that many milliseconds (a million nanoseconds
  each). Every collector that \<open>main\<close> registers, the exporter's own apart, was
  constructed with this one duration.
\<close>

theorem defaults_and_timeout:
  "(env_HTTP_TIMEOUT (environment w) = None \<longrightarrow> HTTPTimeout (load_config w) = 5000) \<and>
   (env_WEB_ADDR (environment w) = None \<longrightarrow> WebAddr (load_config w) = '':9212'') \<and>
   (env_WEB_PATH (environment w) = None \<longrightarrow> WebPath (load_config w) = ''/metrics'') \<and>
   (- 9223372036854 \<le> sint (HTTPTimeout (load_config w)) \<and>
    sint (HTTPTimeout (load_config w)) \<le> 9223372036854 \<longrightarrow>
      sint (main_timeout (load_config w)) = sint (HTTPTimeout (load_config w)) * 1000000) \<and>
   (\<forall>col\<in>set (register_calls (trace (fst (main w g)))).
      resource_of col \<noteq> exporter_self_stats \<longrightarrow>
        timeout_of col = Some (main_timeout (load_config w)))"
proof -
  have t: "- 9223372036854 \<le> sint (HTTPTimeout (load_config w)) \<and>
    sint (HTTPTimeout (load_config w)) \<le> 9223372036854 \<longrightarrow>
      sint (main_timeout (load_config w)) = sint (HTTPTimeout (load_config w)) * 1000000"
    using sint_times_Millisecond[of "HTTPTimeout (load_config w)"]
    by (simp add: main_timeout_def)
  have c: "\<forall>col\<in>set (register_calls (trace (fst (main w g)))).
      resource_of col \<noteq> exporter_self_stats \<longrightarrow>
        timeout_of col = Some (main_timeout (load_config w))"
    using register_calls_subset[of w g] run_collectors_cases[of _ w g] by blast
  from defaults_unset[of w] t c show ?thesis by blast
qed

theorem defaults_and_timeout_witness:
  "env_HTTP_TIMEOUT (environment (example_world token_environment)) = None \<and>
   HTTPTimeout (load_config (example_world token_environment)) = 5000 \<and>
   WebAddr (load_config (example_world token_environment)) = '':9212'' \<and>
   WebPath (load_config (example_world token_environment)) = ''/metrics'' \<and>
   sint (main_timeout (load_config (example_world token_environment))) = 5000 * 1000000 \<and>
   NewVolumeCollector (NewFilter AllowInfo) (NewClient (load_config (example_world token_environment)))
       5000000000
     \<in> set (register_calls (trace (fst (main (example_world token_environment) example_globals)))) \<and>
   timeout_of (NewVolumeCollector (NewFilter AllowInfo)
       (NewClient (load_config (example_world token_environment))) 5000000000) =
     Some (main_timeout (load_config (example_world token_environment)))"
proof -
  let ?w = "example_world token_environment"
  have e: "env_HTTP_TIMEOUT (environment ?w) = None" "env_WEB_ADDR (environment ?w) = None"
    "env_WEB_PATH (environment ?w) = None"
    by (simp_all add: example_world_def token_environment_def no_environment_def)
  have s: "sint (HTTPTimeout (load_config ?w)) = 5000"
    by (simp add: example_load_config)
  have rc: "register_calls (trace (fst (main ?w example_globals))) = run_collectors ?w example_globals"
    by (rule listening_register_calls) (rule example_listening)
  have v: "NewVolumeCollector (NewFilter AllowInfo) (NewClient (load_config ?w)) 5000000000
     \<in> set (register_calls (trace (fst (main ?w example_globals))))"
    unfolding rc
    by (simp add: run_collectors_def main_collectors_def Let_def main_logger_def main_timeout_def
        Millisecond_def example_load_config)
  have r: "resource_of (NewVolumeCollector (NewFilter AllowInfo) (NewClient (load_config ?w)) 5000000000)
      \<noteq> exporter_self_stats" by simp
  note T = defaults_and_timeout[of ?w example_globals]
  from T e have d: "HTTPTimeout (load_config ?w) = 5000" "WebAddr (load_config ?w) = '':9212''"
    "WebPath (load_config ?w) = ''/metrics''"
    by blast+
  from T s have m: "sint (main_timeout (load_config ?w)) = 5000 * 1000000"
    by simp
  from T v r have "timeout_of (NewVolumeCollector (NewFilter AllowInfo)
       (NewClient (load_config ?w)) 5000000000) = Some (main_timeout (load_config ?w))"
    by blast
  with e d m v show ?thesis by blast
qed

text \<open>
  C6, as stated, fails on a help request: \<open>arg.MustParse\<close> prints the usage text and
  ends the process with status 0, although no token is configured, nothing has been
  logged or registered and the listener has not been called.
\<close>

theorem help_exit_counterexample:
  "exit_status (snd (program (MustParse_exits 0) (example_world no_environment) example_globals))
     = Some 0 \<and>
   env_DIGITALOCEAN_TOKEN (environment (example_world no_environment)) = None \<and>
   trace (fst (program (MustParse_exits 0) (example_world no_environment) example_globals)) = [] \<and>
   registry (fst (program (MustParse_exits 0) (example_world no_environment) example_globals)) = []"
  by (simp add: program_def initial_state_def example_world_def no_environment_def)

text \<open>
  C6, amended. The exit status is 0 only when \<open>arg.MustParse\<close> itself ends the process
  with status 0, or when the token was present, the listener was reached and
  \<open>ListenAndServe\<close> returned without an error, so that \<open>main\<close> returned. When
  \<open>arg.MustParse\<close> returns and the token is missing, the run ends with a panic, exit
  status 2. When \<open>arg.MustParse\<close> returns, the listener is reached and it fails to bind
  or returns an error from serving, the error is logged at error level right after the
  listener call, and the run ends with \<open>os.Exit(1)\<close>.
\<close>

theorem exit_codes:
  "(exit_status (snd (program po w g)) = Some 0 \<longrightarrow>
      po = MustParse_exits 0 \<or>
      (po = MustParse_returns \<and> DigitalOceanToken (load_config w) \<noteq> [] \<and> listening w g \<and>
       ListenAndServe_result w (WebAddr (load_config w)) = Returns None))
 \<and> (po = MustParse_returns \<and> DigitalOceanToken (load_config w) = [] \<longrightarrow>
      snd (program po w g) = token_panic \<and> exit_status (snd (program po w g)) = Some 2)
 \<and> (po = MustParse_returns \<and> listening w g \<and>
     (ListenAndServe_result w (WebAddr (load_config w)) = BindFails err \<or>
      ListenAndServe_result w (WebAddr (load_config w)) = Returns (Some err)) \<longrightarrow>
      snd (program po w g) = Exit 1 \<and> exit_status (snd (program po w g)) = Some 1 \<and>
      (\<exists>pre. trace (fst (program po w g)) =
         pre @ [CallListenAndServe (WebAddr (load_config w)), error_line err]))"
proof (intro conjI impI)
  assume z: "exit_status (snd (program po w g)) = Some 0"
  show "po = MustParse_exits 0 \<or>
      (po = MustParse_returns \<and> DigitalOceanToken (load_config w) \<noteq> [] \<and> listening w g \<and>
       ListenAndServe_result w (WebAddr (load_config w)) = Returns None)"
  proof (cases po)
    case (MustParse_exits n)
    with z show ?thesis by (simp add: program_def)
  next
    case MustParse_returns
    with z have z': "exit_status (snd (main w g)) = Some 0" by (simp add: program_def)
    have l: "listening w g"
    proof (rule ccontr)
      assume "\<not> listening w g"
      from not_listening_panics[OF this] z' show False by auto
    qed
    from l have t: "DigitalOceanToken (load_config w) \<noteq> []" by (simp add: listening_iff)
    from z' listening_main(1)[OF l]
    have "ListenAndServe_result w (WebAddr (load_config w)) = Returns None"
      by (auto simp: ListenAndServe_main_logger split: serve_result.splits option.splits)
    with MustParse_returns l t show ?thesis by simp
  qed
next
  assume a: "po = MustParse_returns \<and> DigitalOceanToken (load_config w) = []"
  with main_cases[of w g] have "main w g = (initial_state w, token_panic)" by blast
  with a show "snd (program po w g) = token_panic" "exit_status (snd (program po w g)) = Some 2"
    by (simp_all add: token_panic_def program_def)
next
  assume a: "po = MustParse_returns \<and> listening w g \<and>
     (ListenAndServe_result w (WebAddr (load_config w)) = BindFails err \<or>
      ListenAndServe_result w (WebAddr (load_config w)) = Returns (Some err))"
  then have m: "main w g =
      (emit (error_line err) (emit (CallListenAndServe (WebAddr (load_config w))) (listening_state w g)),
       Exit 1)"
    using listening_main(1)[of w g] by (auto simp: ListenAndServe_main_logger)
  with a show "snd (program po w g) = Exit 1" "exit_status (snd (program po w g)) = Some 1"
    "\<exists>pre. trace (fst (program po w g)) =
         pre @ [CallListenAndServe (WebAddr (load_config w)), error_line err]"
    by (simp_all add: emit_def program_def)
qed

theorem exit_codes_witness:
  "exit_status (snd (program (MustParse_exits 0) (example_world no_environment) example_globals))
     = Some 0 \<and>
   DigitalOceanToken (load_config (example_world no_environment)) = [] \<and>
   exit_status (snd (program MustParse_returns (example_world no_environment) example_globals))
     = Some 2 \<and>
   listening (example_world token_environment) example_globals \<and>
   ListenAndServe_result (example_world token_environment)
     (WebAddr (load_config (example_world token_environment))) =
     BindFails ''bind: address already in use'' \<and>
   snd (program MustParse_returns (example_world token_environment) example_globals) = Exit 1 \<and>
   (\<exists>pre. trace (fst (program MustParse_returns (example_world token_environment) example_globals)) =
      pre @ [CallListenAndServe (WebAddr (load_config (example_world token_environment))),
             error_line ''bind: address already in use''])"
proof -
  have z: "exit_status (snd (program (MustParse_exits 0) (example_world no_environment)
      example_globals)) = Some 0"
    by (simp add: program_def)
  have a: "DigitalOceanToken (load_config (example_world no_environment)) = []"
    by (simp add: load_config_def MustParse_def example_world_def no_environment_def
        default_Config_def)
  have r: "ListenAndServe_result (example_world token_environment)
     (WebAddr (load_config (example_world token_environment))) =
     BindFails ''bind: address already in use''"
    by (simp add: example_world_def)
  from z a r example_listening[of example_globals]
    exit_codes[of "MustParse_exits 0" "example_world no_environment" example_globals]
    exit_codes[of MustParse_returns "example_world no_environment" example_globals]
    exit_codes[of MustParse_returns "example_world token_environment" example_globals
      "''bind: address already in use''"]
  show ?thesis by blast
qed

text \<open>
  C7. In a process run (package initialisation at time \<open>now\<close>, then \<open>main\<close>), the only
  collector of type exporter-self-stats that \<open>main\<close> registers is the one constructed
  from the logger, \<open>Version\<close>, \<open>Revision\<close>, \<open>BuildDate\<close>, \<open>GoVersion\<close> and the
  \<open>StartTime\<close> read at initialisation. It holds no API client and no timeout, while every
  other collector holds both; its constructor returns a collector and no error. A run
  that reaches the listener has registered it.
\<close>

theorem exporter_collector_construction:
  "(\<forall>col\<in>set (register_calls (trace (fst (run w b now)))).
      resource_of col = exporter_self_stats \<longrightarrow>
        col = NewExporterCollector (main_logger (load_config w)) (ld_Version b) (ld_Revision b)
                (ld_BuildDate b) (runtime_Version b) now \<and>
        client_of col = None \<and> timeout_of col = None)
 \<and> (\<forall>col\<in>set (register_calls (trace (fst (run w b now)))).
      resource_of col \<noteq> exporter_self_stats \<longrightarrow> client_of col \<noteq> None \<and> timeout_of col \<noteq> None)
 \<and> (listening w (init_globals b now) \<longrightarrow>
      NewExporterCollector (main_logger (load_config w)) (ld_Version b) (ld_Revision b)
        (ld_BuildDate b) (runtime_Version b) now \<in> set (registry (fst (run w b now))))"
proof -
  let ?e = "NewExporterCollector (main_logger (load_config w)) (ld_Version b) (ld_Revision b)
                (ld_BuildDate b) (runtime_Version b) now"
  have cases: "(col = ?e \<and> resource_of col = exporter_self_stats)
       \<or> (resource_of col \<noteq> exporter_self_stats \<and> client_of col \<noteq> None \<and> timeout_of col \<noteq> None)"
    if "col \<in> set (register_calls (trace (fst (run w b now))))" for col
  proof -
    from that have "col \<in> set (run_collectors w (init_globals b now))"
      using register_calls_subset[of w "init_globals b now"] by (auto simp: run_def)
    from run_collectors_cases[OF this] show ?thesis
      by (auto simp: init_globals_def)
  qed
  have a: "\<forall>col\<in>set (register_calls (trace (fst (run w b now)))).
      resource_of col = exporter_self_stats \<longrightarrow>
        col = ?e \<and> client_of col = None \<and> timeout_of col = None"
    using cases by fastforce
  have b: "\<forall>col\<in>set (register_calls (trace (fst (run w b now)))).
      resource_of col \<noteq> exporter_self_stats \<longrightarrow> client_of col \<noteq> None \<and> timeout_of col \<noteq> None"
    using cases by blast
  have c: "listening w (init_globals b now) \<longrightarrow> ?e \<in> set (registry (fst (run w b now)))"
  proof
    assume l: "listening w (init_globals b now)"
    show "?e \<in> set (registry (fst (run w b now)))"
      by (simp add: run_def listening_main(2)[OF l])
         (simp add: run_collectors_def main_collectors_def Let_def init_globals_def)
  qed
  from a b c show ?thesis by blast
qed

theorem exporter_collector_construction_witness:
  "listening (example_world token_environment) (init_globals example_build 1577836800) \<and>
   NewExporterCollector (NewFilter AllowInfo) ''0.6.1'' ''a1b2c3d'' ''20200101'' ''go1.13'' 1577836800
     \<in> set (registry (fst (run (example_world token_environment) example_build 1577836800))) \<and>
   NewExporterCollector (NewFilter AllowInfo) ''0.6.1'' ''a1b2c3d'' ''20200101'' ''go1.13'' 1577836800
     \<in> set (register_calls (trace (fst (run (example_world token_environment) example_build 1577836800)))) \<and>
   client_of (NewExporterCollector (NewFilter AllowInfo) ''0.6.1'' ''a1b2c3d'' ''20200101'' ''go1.13''
     1577836800) = None"
proof -
  let ?w = "example_world token_environment"
  let ?g = "init_globals example_build 1577836800"
  have l: "listening ?w ?g" by (rule example_listening)
  have lg: "main_logger (load_config ?w) = NewFilter AllowInfo"
    by (simp add: example_load_config main_logger_def)
  have b: "ld_Version example_build = ''0.6.1''" "ld_Revision example_build = ''a1b2c3d''"
    "ld_BuildDate example_build = ''20200101''" "runtime_Version example_build = ''go1.13''"
    by (simp_all add: example_build_def)
  have rc: "register_calls (trace (fst (run ?w example_build 1577836800))) =
      registry (fst (run ?w example_build 1577836800))"
    by (simp add: run_def listening_register_calls[OF l] listening_main(2)[OF l])
  from exporter_collector_construction[of ?w example_build 1577836800] l
  have "NewExporterCollector (NewFilter AllowInfo) ''0.6.1'' ''a1b2c3d'' ''20200101'' ''go1.13'' 1577836800
     \<in> set (registry (fst (run ?w example_build 1577836800)))"
    by (simp add: lg b)
  with l rc show ?thesis by simp
qed

text \<open>
  C8, as stated, fails for four kinds of scrape path. With \<open>WEB_PATH=/\<close> the second
  \<open>http.HandleFunc\<close> registers the pattern \<open>/\<close> again and panics, so nothing is ever
  served. With a double quote in the path the page is served but the quote ends the
  \<open>href\<close> attribute early, so the hyperlink's target is only the part before it. With
  a character reference in the path the target is the decoded text, \<open>/a&b\<close> for the
  path \<open>/a&amp;b\<close>. With the host-specific pattern \<open>localhost/\<close> a request for \<open>/\<close> on
  that host is a scrape.
\<close>

theorem landing_page_counterexample:
  \<open>snd (main root_path_world example_globals) =
     Panic (PanicString ''http: multiple registrations for /'') \<and>
   served_response root_path_world example_globals get_root = None \<and>
   WebPath (load_config quoted_path_world) = ''/m"x'' \<and>
   served_response quoted_path_world example_globals get_root =
     Some (Written 200 (landing_page (load_config quoted_path_world))) \<and>
   hyperlink_target (landing_page (load_config quoted_path_world)) = Some ''/m'' \<and>
   hyperlink_target (landing_page (load_config quoted_path_world)) \<noteq>
     Some (WebPath (load_config quoted_path_world)) \<and>
   WebPath (load_config reference_path_world) = ''/a&amp;b'' \<and>
   served_response reference_path_world example_globals get_root =
     Some (Written 200 (landing_page (load_config reference_path_world))) \<and>
   hyperlink_target (landing_page (load_config reference_path_world)) = Some ''/a&b'' \<and>
   hyperlink_target (landing_page (load_config reference_path_world)) \<noteq>
     Some (WebPath (load_config reference_path_world)) \<and>
   WebPath (load_config host_path_world) = ''localhost/'' \<and>
   served_response host_path_world example_globals get_root = Some Scrape\<close>
proof -
  have nl: "\<not> serving root_path_world example_globals"
    by (simp add: serving_def listening_iff handlers_accepted_def root_path_world_def
        serving_world_config)
  have a: "served_response root_path_world example_globals get_root = None"
    using nl by (simp add: served_response_def)
  have q: \<open>WebPath (load_config quoted_path_world) = ''/m"x''\<close>
    by (simp add: quoted_path_world_def serving_world_config)
  have sq: "serving quoted_path_world example_globals"
    unfolding quoted_path_world_def by (rule serving_path_world) simp_all
  have oq: "\<not> other_pattern_serves (mux (fst (main quoted_path_world example_globals)))
      (Host get_root @ ''/'')"
    unfolding serving_mux[OF sq] q
    by (simp add: quoted_path_world_def serving_world_patterns other_pattern_serves_def
        serves_pattern_def subtree_pattern_def get_root_def)
  have b: "served_response quoted_path_world example_globals get_root =
     Some (Written 200 (landing_page (load_config quoted_path_world)))"
    by (rule served_root[OF sq _ oq]) (simp_all add: get_root_def)
  have c: "hyperlink_target (landing_page (load_config quoted_path_world)) = Some ''/m''"
    by (simp add: hyperlink_target_landing_page q literal_char_def)
  have c': "hyperlink_target (landing_page (load_config quoted_path_world)) \<noteq>
     Some (WebPath (load_config quoted_path_world))"
    by (simp add: c q)
  have e: "WebPath (load_config reference_path_world) = ''/a&amp;b''"
    by (simp add: reference_path_world_def serving_world_config)
  have se: "serving reference_path_world example_globals"
    unfolding reference_path_world_def by (rule serving_path_world) simp_all
  have oe: "\<not> other_pattern_serves (mux (fst (main reference_path_world example_globals)))
      (Host get_root @ ''/'')"
    unfolding serving_mux[OF se] e
    by (simp add: reference_path_world_def serving_world_patterns other_pattern_serves_def
        serves_pattern_def subtree_pattern_def get_root_def)
  have f: "served_response reference_path_world example_globals get_root =
     Some (Written 200 (landing_page (load_config reference_path_world)))"
    by (rule served_root[OF se _ oe]) (simp_all add: get_root_def)
  have k: "hyperlink_target (landing_page (load_config reference_path_world)) = Some ''/a&b''"
    by (simp add: hyperlink_target_landing_page e literal_char_def)
  have k': "hyperlink_target (landing_page (load_config reference_path_world)) \<noteq>
     Some (WebPath (load_config reference_path_world))"
    by (simp add: k e)
  have h: "WebPath (load_config host_path_world) = ''localhost/''"
    by (simp add: host_path_world_def serving_world_config)
  have sh: "serving host_path_world example_globals"
    unfolding host_path_world_def by (rule serving_path_world) simp_all
  have d: "served_response host_path_world example_globals get_root = Some Scrape"
    unfolding served_serving[OF sh] serving_mux[OF sh] h
    by (simp add: host_path_world_def serving_world_patterns mux_ServeHTTP_def get_root_def
        cleanPath_root shouldRedirect_def mux_handler_def mux_hosts_def mux_match_def answer_def)
  from root_path_main[of example_globals] a q b c c' e f k k' h d show ?thesis by blast
qed

text \<open>
  C8, amended. In a run whose listener serves (it has been reached, which needs a
  scrape path that is neither empty nor registered already, and it has bound its
  address), a request for the root path \<open>/\<close>, of any method but \<open>HEAD\<close>, on a host for
  which no registered pattern other than \<open>/\<close> is host-specific, is answered with
  status 200 and the static page: the text of the source with the scrape path
  inserted unescaped. And for every scrape path made only of characters that an HTML
  reader copies (ASCII without the double quote, the ampersand, NUL and the carriage
  return), the target of the page's hyperlink, the decoded value of its \<open>href\<close>
  attribute, is exactly the scrape path.
\<close>

theorem landing_page_links_to_scrape_path:
  \<open>(serving w g \<and> Method r \<noteq> ''HEAD'' \<and> Path r = ''/'' \<and>
    \<not> other_pattern_serves (mux (fst (main w g))) (Host r @ ''/'') \<longrightarrow>
      served_response w g r = Some (Written 200 (landing_page (load_config w)))) \<and>
   landing_page (load_config w) =
     ''<html>'' @ [CHR 0x0A, CHR 0x09, CHR 0x09, CHR 0x09] @
     ''<head><title>DigitalOcean Exporter</title></head>'' @ [CHR 0x0A, CHR 0x09, CHR 0x09, CHR 0x09] @
     ''<body>'' @ [CHR 0x0A, CHR 0x09, CHR 0x09, CHR 0x09] @
     ''<h1>DigitalOcean Exporter</h1>'' @ [CHR 0x0A, CHR 0x09, CHR 0x09, CHR 0x09] @
     ''<p><a href="'' @ WebPath (load_config w) @ ''">Metrics</a></p>'' @
     [CHR 0x0A, CHR 0x09, CHR 0x09, CHR 0x09] @
     ''</body>'' @ [CHR 0x0A, CHR 0x09, CHR 0x09, CHR 0x09] @
     ''</html>'' \<and>
   (list_all literal_char (WebPath (load_config w)) \<longrightarrow>
      hyperlink_target (landing_page (load_config w)) = Some (WebPath (load_config w)))\<close>
proof (intro conjI impI)
  assume "serving w g \<and> Method r \<noteq> ''HEAD'' \<and> Path r = ''/'' \<and>
    \<not> other_pattern_serves (mux (fst (main w g))) (Host r @ ''/'')"
  then show "served_response w g r = Some (Written 200 (landing_page (load_config w)))"
    using served_root[of w g r] by blast
next
  show \<open>landing_page (load_config w) =
     ''<html>'' @ [CHR 0x0A, CHR 0x09, CHR 0x09, CHR 0x09] @
     ''<head><title>DigitalOcean Exporter</title></head>'' @ [CHR 0x0A, CHR 0x09, CHR 0x09, CHR 0x09] @
     ''<body>'' @ [CHR 0x0A, CHR 0x09, CHR 0x09, CHR 0x09] @
     ''<h1>DigitalOcean Exporter</h1>'' @ [CHR 0x0A, CHR 0x09, CHR 0x09, CHR 0x09] @
     ''<p><a href="'' @ WebPath (load_config w) @ ''">Metrics</a></p>'' @
     [CHR 0x0A, CHR 0x09, CHR 0x09, CHR 0x09] @
     ''</body>'' @ [CHR 0x0A, CHR 0x09, CHR 0x09, CHR 0x09] @
     ''</html>''\<close>
    by (rule landing_page_text)
next
  assume "list_all literal_char (WebPath (load_config w))"
  then show "hyperlink_target (landing_page (load_config w)) = Some (WebPath (load_config w))"
    by (rule hyperlink_target_literal)
qed

theorem landing_page_links_to_scrape_path_witness:
  "serving (serving_world token_environment) example_globals \<and>
   Method get_root \<noteq> ''HEAD'' \<and> Path get_root = ''/'' \<and>
   \<not> other_pattern_serves (mux (fst (main (serving_world token_environment) example_globals)))
       (Host get_root @ ''/'') \<and>
   list_all literal_char (WebPath (load_config (serving_world token_environment))) \<and>
   served_response (serving_world token_environment) example_globals get_root =
     Some (Written 200 (landing_page (load_config (serving_world token_environment)))) \<and>
   hyperlink_target (landing_page (load_config (serving_world token_environment))) =
     Some ''/metrics''"
proof -
  let ?w = "serving_world token_environment"
  note s = serving_default_world[of example_globals]
  have p: "Path get_root = ''/''" "Method get_root \<noteq> ''HEAD''" by (simp_all add: get_root_def)
  have n: "\<not> other_pattern_serves (mux (fst (main ?w example_globals))) (Host get_root @ ''/'')"
    unfolding serving_mux[OF s]
    by (simp add: serving_world_default_config serving_world_patterns other_pattern_serves_def
        serves_pattern_def subtree_pattern_def get_root_def)
  have wp: "WebPath (load_config ?w) = ''/metrics''"
    by (simp add: serving_world_default_config)
  have q: "list_all literal_char (WebPath (load_config ?w))"
    by (simp add: wp literal_char_def)
  from landing_page_links_to_scrape_path[of ?w example_globals get_root] s p n q
  have "served_response ?w example_globals get_root =
      Some (Written 200 (landing_page (load_config ?w)))"
    "hyperlink_target (landing_page (load_config ?w)) = Some (WebPath (load_config ?w))"
    by blast+
  with s p n q wp show ?thesis by simp
qed

text \<open>
  C9. For every configuration, \<open>Token\<close> returns a non-nil token whose \<open>AccessToken\<close>
  is the configured \<open>DigitalOceanToken\<close>, and a nil error. Nothing is checked: the
  statement holds for the empty token as for any other.
\<close>

theorem Token_never_fails:
  "\<exists>tok. Token c = (Some tok, None) \<and> AccessToken tok = DigitalOceanToken c"
  by (simp add: Token_def)

text \<open>
  C10, as stated, fails for requests to which no pattern but \<open>/\<close> applies: the mux
  answers \<open>GET //favicon.ico\<close> with a redirect (301) to the cleaned path
  \<open>/favicon.ico\<close>, the server answers \<open>OPTIONS *\<close> itself with status 200 and no body,
  and a \<open>HEAD\<close> request gets the status without the page.
\<close>

theorem catch_all_counterexample:
  "serving (serving_world token_environment) example_globals \<and>
   \<not> other_pattern_matches (mux (fst (main (serving_world token_environment) example_globals)))
       get_double_slash \<and>
   served_response (serving_world token_environment) example_globals get_double_slash =
     Some (MovedPermanently ''/favicon.ico'') \<and>
   \<not> other_pattern_matches (mux (fst (main (serving_world token_environment) example_globals)))
       options_asterisk \<and>
   served_response (serving_world token_environment) example_globals options_asterisk =
     Some (Written 200 []) \<and>
   \<not> other_pattern_matches (mux (fst (main (serving_world token_environment) example_globals)))
       head_favicon \<and>
   served_response (serving_world token_environment) example_globals head_favicon =
     Some (Written 200 []) \<and>
   landing_page (load_config (serving_world token_environment)) \<noteq> []"
proof -
  let ?w = "serving_world token_environment"
  note s = serving_default_world[of example_globals]
  have m: "mux (fst (main ?w example_globals)) =
      [(''/debug/vars'', LibraryHandler ''expvar''), (''/metrics'', promhttp_Handler),
       (''/'', HandlerFunc (load_config ?w))]"
    unfolding serving_mux[OF s]
    by (simp add: serving_world_default_config serving_world_patterns)
  have o1: "\<not> other_pattern_matches (mux (fst (main ?w example_globals))) get_double_slash"
    unfolding m
    by (simp add: other_pattern_matches_def request_matches_def pattern_matches_def
        serves_pattern_def subtree_pattern_def get_double_slash_def)
  have c: "cleanPath ''//favicon.ico'' = ''/favicon.ico''"
    by (simp add: cleanPath_def path_Clean_def clean_element_def)
  have r1: "served_response ?w example_globals get_double_slash =
     Some (MovedPermanently ''/favicon.ico'')"
    unfolding served_serving[OF s] m
    by (simp add: mux_ServeHTTP_def get_double_slash_def c shouldRedirect_def)
  have o2: "\<not> other_pattern_matches (mux (fst (main ?w example_globals))) options_asterisk"
    unfolding m
    by (simp add: other_pattern_matches_def request_matches_def pattern_matches_def
        serves_pattern_def subtree_pattern_def options_asterisk_def)
  have r2: "served_response ?w example_globals options_asterisk = Some (Written 200 [])"
    unfolding served_serving[OF s]
    by (simp add: mux_ServeHTTP_def options_asterisk_def)
  have o3: "\<not> other_pattern_matches (mux (fst (main ?w example_globals))) head_favicon"
    unfolding m
    by (simp add: other_pattern_matches_def request_matches_def pattern_matches_def
        serves_pattern_def subtree_pattern_def head_favicon_def)
  have c3: "cleanPath ''/favicon.ico'' = ''/favicon.ico''"
    by (simp add: cleanPath_def path_Clean_def clean_element_def)
  have r3: "served_response ?w example_globals head_favicon = Some (Written 200 [])"
    unfolding served_serving[OF s] m
    by (simp add: mux_ServeHTTP_def head_favicon_def c3 shouldRedirect_def mux_handler_def
        mux_hosts_def mux_match_def subtree_pattern_def answer_def)
  have ne: "landing_page (load_config ?w) \<noteq> []"
    by (simp add: landing_page_def)
  from s o1 r1 o2 r2 o3 r3 ne show ?thesis by blast
qed

text \<open>
  C10, amended. In a run whose listener serves, the mux holds the landing-page handler
  on the pattern \<open>/\<close>. No request whose path begins with a slash is answered with the
  mux's 404. Every request, of any method but \<open>HEAD\<close>, whose path is in canonical form
  (path cleaning leaves it unchanged) and to which no registered pattern other than
  \<open>/\<close> applies (neither the scrape path nor a pattern of an imported package, neither
  to its path nor to its host and path) is answered with status 200 and the landing
  page, the text of the source with the scrape path inserted.
\<close>

theorem landing_page_is_catch_all:
  \<open>serving w g \<longrightarrow>
     map_of (mux (fst (main w g))) ''/'' = Some (HandlerFunc (load_config w)) \<and>
     (prefix ''/'' (Path r) \<longrightarrow> served_response w g r \<noteq> Some NotFound) \<and>
     (Method r \<noteq> ''HEAD'' \<and> cleanPath (Path r) = Path r \<and>
      \<not> other_pattern_matches (mux (fst (main w g))) r \<longrightarrow>
        served_response w g r = Some (Written 200 (landing_page (load_config w)))) \<and>
     landing_page (load_config w) =
       ''<html>'' @ [CHR 0x0A, CHR 0x09, CHR 0x09, CHR 0x09] @
       ''<head><title>DigitalOcean Exporter</title></head>'' @ [CHR 0x0A, CHR 0x09, CHR 0x09, CHR 0x09] @
       ''<body>'' @ [CHR 0x0A, CHR 0x09, CHR 0x09, CHR 0x09] @
       ''<h1>DigitalOcean Exporter</h1>'' @ [CHR 0x0A, CHR 0x09, CHR 0x09, CHR 0x09] @
       ''<p><a href="'' @ WebPath (load_config w) @ ''">Metrics</a></p>'' @
       [CHR 0x0A, CHR 0x09, CHR 0x09, CHR 0x09] @
       ''</body>'' @ [CHR 0x0A, CHR 0x09, CHR 0x09, CHR 0x09] @
       ''</html>''\<close>
proof (intro impI conjI)
  assume s: "serving w g"
  show "map_of (mux (fst (main w g))) ''/'' = Some (HandlerFunc (load_config w))"
    by (rule listening_root_handler) (rule serving_listening[OF s])
  {
    assume "prefix ''/'' (Path r)"
    then show "served_response w g r \<noteq> Some NotFound" by (rule served_not_404[OF s])
  }
  {
    assume "Method r \<noteq> ''HEAD'' \<and> cleanPath (Path r) = Path r \<and>
      \<not> other_pattern_matches (mux (fst (main w g))) r"
    then show "served_response w g r = Some (Written 200 (landing_page (load_config w)))"
      using served_canonical[OF s, of r] by blast
  }
  show \<open>landing_page (load_config w) =
       ''<html>'' @ [CHR 0x0A, CHR 0x09, CHR 0x09, CHR 0x09] @
       ''<head><title>DigitalOcean Exporter</title></head>'' @ [CHR 0x0A, CHR 0x09, CHR 0x09, CHR 0x09] @
       ''<body>'' @ [CHR 0x0A, CHR 0x09, CHR 0x09, CHR 0x09] @
       ''<h1>DigitalOcean Exporter</h1>'' @ [CHR 0x0A, CHR 0x09, CHR 0x09, CHR 0x09] @
       ''<p><a href="'' @ WebPath (load_config w) @ ''">Metrics</a></p>'' @
       [CHR 0x0A, CHR 0x09, CHR 0x09, CHR 0x09] @
       ''</body>'' @ [CHR 0x0A, CHR 0x09, CHR 0x09, CHR 0x09] @
       ''</html>''\<close>
    by (rule landing_page_text)
qed

theorem landing_page_is_catch_all_witness:
  "serving (serving_world token_environment) example_globals \<and>
   Method get_favicon \<noteq> ''HEAD'' \<and> prefix ''/'' (Path get_favicon) \<and>
   cleanPath (Path get_favicon) = Path get_favicon \<and>
   \<not> other_pattern_matches (mux (fst (main (serving_world token_environment) example_globals)))
       get_favicon \<and>
   served_response (serving_world token_environment) example_globals get_favicon =
     Some (Written 200 (landing_page (load_config (serving_world token_environment)))) \<and>
   served_response (serving_world token_environment) example_globals get_favicon \<noteq> Some NotFound"
proof -
  let ?w = "serving_world token_environment"
  note s = serving_default_world[of example_globals]
  have p: "prefix ''/'' (Path get_favicon)" "Method get_favicon \<noteq> ''HEAD''"
    by (simp_all add: get_favicon_def)
  have c: "cleanPath (Path get_favicon) = Path get_favicon"
    by (simp add: get_favicon_def cleanPath_def path_Clean_def clean_element_def)
  have n: "\<not> other_pattern_matches (mux (fst (main ?w example_globals))) get_favicon"
    unfolding serving_mux[OF s]
    by (simp add: serving_world_default_config serving_world_patterns other_pattern_matches_def
        request_matches_def pattern_matches_def serves_pattern_def subtree_pattern_def
        get_favicon_def)
  from landing_page_is_catch_all[of ?w example_globals get_favicon] s p c n
  show ?thesis by blast
qed

end
